theory Spec2Isabelle
  imports Main "HOL-Library.AList"
begin

section \<open>JavaScript values and the media node's attributes\<close>

text \<open>
  Attribute values of the editor are JavaScript values. The ones that occur are
  \<^verbatim>\<open>undefined\<close>, \<^verbatim>\<open>null\<close>, booleans, strings and numbers
  (\<^verbatim>\<open>width?: number | string\<close>). A number is held as the text that JavaScript writes
  for it: \<open>Num ''300''\<close>, \<open>Num ''1.5''\<close>, \<open>Num ''1e+21''\<close>, \<open>Num ''NaN''\<close>. Two numbers
  are written alike only if they are \<open>0\<close> and \<open>-0\<close>, which no code here tells apart,
  and no number is written as the empty text.
  \<open>truthy\<close> is JavaScript's ToBoolean on these values, which is what
  \<^verbatim>\<open>if (!attributes.width)\<close>, \<^verbatim>\<open>if (href)\<close> and \<^verbatim>\<open>linkUrl || null\<close> test: the
  falsy numbers are zero and \<^verbatim>\<open>NaN\<close>. \<open>to_string\<close> is JavaScript's conversion of a
  value to a string.
\<close>

datatype jsval = Undefined | Null | Bool bool | Str string | Num string

fun truthy :: "jsval \<Rightarrow> bool" where
  "truthy Undefined = False"
| "truthy Null = False"
| "truthy (Bool b) = b"
| "truthy (Str s) = (s \<noteq> [])"
| "truthy (Num written) = (written \<notin> set ['''', ''0'', ''NaN''])"

fun to_string :: "jsval \<Rightarrow> string" where
  "to_string (Str s) = s"
| "to_string (Num written) = written"
| "to_string (Bool b) = (if b then ''true'' else ''false'')"
| "to_string Null = ''null''"
| "to_string Undefined = ''undefined''"

text \<open>
  A \<^verbatim>\<open>customImage\<close> node carries exactly the six attributes that
  \<^verbatim>\<open>addAttributes\<close> declares.
\<close>

record media_attrs =
  src :: jsval
  alt :: jsval
  title :: jsval
  width :: jsval
  height :: jsval
  href :: jsval

text \<open>
  \<^verbatim>\<open>addAttributes\<close> gives every attribute \<^verbatim>\<open>default: null\<close>. Creating a node
  from a given attribute object (\<^verbatim>\<open>schema.nodes.customImage.create(attrs)\<close>, and the
  \<^verbatim>\<open>setImage\<close> command through \<^verbatim>\<open>insertContent\<close>) takes each declared attribute
  from the object and falls back to the default where the object has no such key or
  has \<^verbatim>\<open>undefined\<close> there.
\<close>

definition attr_default :: "string \<Rightarrow> jsval" where
  "attr_default k = Null"

definition attr_or_default :: "(string \<times> jsval) list \<Rightarrow> string \<Rightarrow> jsval" where
  "attr_or_default given k =
     (case map_of given k of
        None \<Rightarrow> attr_default k
      | Some Undefined \<Rightarrow> attr_default k
      | Some v \<Rightarrow> v)"

definition node_create :: "(string \<times> jsval) list \<Rightarrow> media_attrs" where
  "node_create given =
     \<lparr> src = attr_or_default given ''src'',
       alt = attr_or_default given ''alt'',
       title = attr_or_default given ''title'',
       width = attr_or_default given ''width'',
       height = attr_or_default given ''height'',
       href = attr_or_default given ''href'' \<rparr>"

section \<open>The upload pipeline: drop and paste (editor.tsx)\<close>

text \<open>
  A file is an opaque handle with a name and a declared content type. The gesture's
  event gives \<^verbatim>\<open>event.dataTransfer?.files\<close> (\<open>None\<close> when there is no data
  transfer object). The editor view's state has a document, left abstract, and a
  selection, of which the handlers read \<^verbatim>\<open>selection.from\<close>.
\<close>

record jsfile =
  file_name :: string
  file_type :: string

record 'd view_state =
  doc :: 'd
  selection_from :: nat

text \<open>
  What a handler does to the outside world is logged as a list of effects, in the order
  of the calls: console output, notifications, \<^verbatim>\<open>event.preventDefault()\<close>, the start
  of an upload, and the call \<^verbatim>\<open>view.state.tr.insert(pos, node)\<close> with its position and
  node; for the file picker of the menu bar, \<^verbatim>\<open>setIsUploading\<close>, the command chain
  \<^verbatim>\<open>editor.chain().focus().setImage(options).run()\<close> with the node it inserts at the
  selection, and the reset of the file input. The progress callback is advisory and is
  left out.
\<close>

datatype effect =
  ConsoleLog string
| ConsoleError string
| ToastError string
| ToastSuccess string
| PreventDefault
| UploadFile jsfile
| TrInsert nat media_attrs
| SetIsUploading bool
| RunSetImage media_attrs
| ResetFileInput

text \<open>
  \<^verbatim>\<open>uploadFile(file, ...)\<close> returns a promise. The callbacks passed to \<^verbatim>\<open>.then\<close> and
  \<^verbatim>\<open>.catch\<close> close over \<^verbatim>\<open>file\<close> and \<^verbatim>\<open>pos\<close>: an upload task is that closure.
\<close>

record upload_task =
  task_file :: jsfile
  task_pos :: nat

datatype upload_error = UploadError string

text \<open>
  Each of \<^verbatim>\<open>handleDrop\<close>, \<^verbatim>\<open>handlePaste\<close> and \<^verbatim>\<open>handleFileChange\<close> declares the
  same local list \<^verbatim>\<open>acceptedTypes\<close>.
\<close>

definition acceptedTypes :: "string list" where
  "acceptedTypes = [''image/jpeg'', ''image/png'', ''image/gif'']"

definition accepted :: "jsfile \<Rightarrow> bool" where
  "accepted f = (file_type f \<in> set acceptedTypes)"

text \<open>
  \<^verbatim>\<open>handleDrop\<close> returns whether it handled the event, its effects, and the tasks it
  started (one per image file, in order).
\<close>

definition handleDrop ::
  "'d view_state \<Rightarrow> jsfile list option \<Rightarrow> bool \<times> effect list \<times> upload_task list" where
  "handleDrop view dataTransfer_files =
     (let log0 = [ConsoleLog ''Dropped files:''] in
      case dataTransfer_files of
        None \<Rightarrow> (False, log0, [])
      | Some files \<Rightarrow>
          if length files = 0 then (False, log0, [])
          else
            let imageFiles = filter (\<lambda>f. accepted f) files;
                invalidFiles = filter (\<lambda>f. \<not> accepted f) files;
                warn = (if length invalidFiles > 0
                        then [ToastError ''Please Drop only valid image files (JPEG, PNG, or GIF)'']
                        else [])
            in
              if length invalidFiles > 0 \<and> length imageFiles = 0 then (False, log0 @ warn, [])
              else if length imageFiles = 0 then (False, log0 @ warn, [])
              else
                let pos = selection_from view in
                  (True,
                   log0 @ warn @ [PreventDefault] @ map UploadFile imageFiles,
                   map (\<lambda>f. \<lparr> task_file = f, task_pos = pos \<rparr>) imageFiles))"

definition handlePaste ::
  "'d view_state \<Rightarrow> jsfile list option \<Rightarrow> bool \<times> effect list \<times> upload_task list" where
  "handlePaste view clipboardData_files =
     (case clipboardData_files of
        None \<Rightarrow> (False, [], [])
      | Some files \<Rightarrow>
          if length files = 0 then (False, [], [])
          else
            let imageFiles = filter (\<lambda>f. accepted f) files;
                invalidFiles = filter (\<lambda>f. \<not> accepted f) files;
                warn = (if length invalidFiles > 0
                        then [ToastError ''Please paste only valid image files (JPEG, PNG, or GIF).'']
                        else [])
            in
              if length invalidFiles > 0 \<and> length imageFiles = 0 then (False, warn, [])
              else if length imageFiles = 0 then (False, warn, [])
              else
                let pos = selection_from view in
                  (True,
                   warn @ [PreventDefault] @ map UploadFile imageFiles,
                   map (\<lambda>f. \<lparr> task_file = f, task_pos = pos \<rparr>) imageFiles))"

text \<open>
  The continuation of one upload. The document engine is a parameter: \<open>tr_insert\<close>
  takes the view's state at completion time, the position and the node, and gives the
  state after \<^verbatim>\<open>view.dispatch(view.state.tr.insert(pos, node))\<close>, or \<open>None\<close> when the
  engine throws (a position outside the document); a throw inside \<^verbatim>\<open>.then\<close> lands in
  the \<^verbatim>\<open>.catch\<close> callback like a rejected upload does.
\<close>

definition drop_settled ::
  "('d view_state \<Rightarrow> nat \<Rightarrow> media_attrs \<Rightarrow> 'd view_state option) \<Rightarrow>
   upload_task \<Rightarrow> upload_error + string \<Rightarrow> 'd view_state \<Rightarrow> 'd view_state \<times> effect list" where
  "drop_settled tr_insert task outcome view =
     (let failed = [ConsoleError ''Drop upload failed:'',
                    ToastError (''Failed to upload image \"'' @ file_name (task_file task) @ ''\".'')]
      in case outcome of
        Inl err \<Rightarrow> (view, failed)
      | Inr fileUrl \<Rightarrow>
          let node = node_create [(''src'', Str fileUrl)] in
            (case tr_insert view (task_pos task) node of
               None \<Rightarrow> (view, TrInsert (task_pos task) node # failed)
             | Some view' \<Rightarrow>
                 (view',
                  [TrInsert (task_pos task) node,
                   ConsoleLog ''Dropped image inserted:'',
                   ToastSuccess (''Image \"'' @ file_name (task_file task) @ ''\" uploaded successfully!'')])))"

definition paste_settled ::
  "('d view_state \<Rightarrow> nat \<Rightarrow> media_attrs \<Rightarrow> 'd view_state option) \<Rightarrow>
   upload_task \<Rightarrow> upload_error + string \<Rightarrow> 'd view_state \<Rightarrow> 'd view_state \<times> effect list" where
  "paste_settled tr_insert task outcome view =
     (let failed = [ConsoleError ''Paste upload failed:'',
                    ToastError (''Failed to upload image \"'' @ file_name (task_file task) @ ''\".'')]
      in case outcome of
        Inl err \<Rightarrow> (view, failed)
      | Inr fileUrl \<Rightarrow>
          let node = node_create [(''src'', Str fileUrl)] in
            (case tr_insert view (task_pos task) node of
               None \<Rightarrow> (view, TrInsert (task_pos task) node # failed)
             | Some view' \<Rightarrow>
                 (view',
                  [TrInsert (task_pos task) node,
                   ConsoleLog ''Pasted image inserted:'',
                   ToastSuccess (''Image \"'' @ file_name (task_file task) @ ''\" uploaded successfully!'')])))"

text \<open>
  The event loop after a gesture. Uploads settle in any order, each at most once, and
  between two settlements the user or the engine may replace the view's state (an edit,
  a moved selection). \<open>run_async\<close> plays such a schedule: \<open>Settled i outcome\<close> runs the
  continuation of the \<open>i\<close>-th task if it is still pending, \<open>Edited v\<close> installs another
  state.
\<close>

datatype 'd async_event =
  Settled nat "upload_error + string"
| Edited "'d view_state"

fun run_async ::
  "(upload_task \<Rightarrow> upload_error + string \<Rightarrow> 'd view_state \<Rightarrow> 'd view_state \<times> effect list) \<Rightarrow>
   upload_task option list \<Rightarrow> 'd view_state \<Rightarrow> 'd async_event list \<Rightarrow> 'd view_state \<times> effect list" where
  "run_async settled pending view [] = (view, [])"
| "run_async settled pending view (Edited view' # evs) = run_async settled pending view' evs"
| "run_async settled pending view (Settled i outcome # evs) =
     (if i < length pending then
        (case pending ! i of
           None \<Rightarrow> run_async settled pending view evs
         | Some task \<Rightarrow>
             (case settled task outcome view of
                (view', effs) \<Rightarrow>
                  (case run_async settled (pending[i := None]) view' evs of
                     (view'', effs') \<Rightarrow> (view'', effs @ effs'))))
      else run_async settled pending view evs)"


fun inserted_nodes :: "effect list \<Rightarrow> media_attrs list" where
  "inserted_nodes [] = []"
| "inserted_nodes (TrInsert p n # es) = n # inserted_nodes es"
| "inserted_nodes (e # es) = inserted_nodes es"

fun toast_errors :: "effect list \<Rightarrow> string list" where
  "toast_errors [] = []"
| "toast_errors (ToastError m # es) = m # toast_errors es"
| "toast_errors (e # es) = toast_errors es"

fun uploads :: "effect list \<Rightarrow> jsfile list" where
  "uploads [] = []"
| "uploads (UploadFile f # es) = f # uploads es"
| "uploads (e # es) = uploads es"

section \<open>The upload pipeline: the file picker (menu-bar.tsx)\<close>

text \<open>
  The command \<^verbatim>\<open>setImage\<close> of \<^verbatim>\<open>addCommands\<close> is
  \<^verbatim>\<open>commands.insertContent({ type: this.name, attrs: options })\<close>: it inserts a
  \<^verbatim>\<open>customImage\<close> node created from the options.
\<close>

definition setImage :: "(string \<times> jsval) list \<Rightarrow> media_attrs" where
  "setImage options = node_create options"

text \<open>
  \<^verbatim>\<open>handleFileChange\<close> up to its \<^verbatim>\<open>await\<close>: \<^verbatim>\<open>event.target.files?.[0]\<close> is
  \<^verbatim>\<open>undefined\<close> when there is no file list or the list is empty. The result is the
  effects and the file whose upload is awaited, if any.
\<close>

definition handleFileChange :: "bool \<Rightarrow> jsfile list option \<Rightarrow> effect list \<times> jsfile option" where
  "handleFileChange editor_present target_files =
     (let file = (case target_files of
                    None \<Rightarrow> None
                  | Some [] \<Rightarrow> None
                  | Some (f # rest) \<Rightarrow> Some f)
      in case file of
        None \<Rightarrow> ([], None)
      | Some f \<Rightarrow>
          if \<not> editor_present then ([], None)
          else if file_type f \<notin> set acceptedTypes
          then ([ToastError ''Please select a valid image file (JPEG, PNG, or GIF).''], None)
          else ([SetIsUploading True, UploadFile f], Some f))"

text \<open>
  After the \<^verbatim>\<open>await\<close>: the \<^verbatim>\<open>try\<close> body on a fulfilled upload, the \<^verbatim>\<open>catch\<close> body
  on a rejected one, then the \<^verbatim>\<open>finally\<close> block (\<open>input_mounted\<close> says whether
  \<^verbatim>\<open>fileInputRef.current\<close> is set).
\<close>

definition fileChange_settled :: "bool \<Rightarrow> upload_error + string \<Rightarrow> effect list" where
  "fileChange_settled input_mounted outcome =
     (case outcome of
        Inr fileUrl \<Rightarrow>
          [RunSetImage (setImage [(''src'', Str fileUrl), (''width'', Undefined), (''height'', Undefined)])]
      | Inl err \<Rightarrow>
          [ConsoleError ''Image upload failed:'',
           ToastError ''Failed to upload image. Please try again.''])
     @ [SetIsUploading False]
     @ (if input_mounted then [ResetFileInput] else [])"

fun set_image_nodes :: "effect list \<Rightarrow> media_attrs list" where
  "set_image_nodes [] = []"
| "set_image_nodes (RunSetImage n # es) = n # set_image_nodes es"
| "set_image_nodes (e # es) = set_image_nodes es"

section \<open>URL policy of the link extension (editor.tsx)\<close>

text \<open>
  \<^verbatim>\<open>isAllowedUri\<close> is the callback given to \<^verbatim>\<open>Link.configure\<close>. It reads two fields of
  the URL object that the platform's \<^verbatim>\<open>new URL(...)\<close> builds: \<^verbatim>\<open>protocol\<close> (the
  scheme with its colon) and \<^verbatim>\<open>hostname\<close>. The URL parser is a parameter of the model:
  \<open>None\<close> stands for the \<^verbatim>\<open>TypeError\<close> it throws on input it cannot parse. The
  context's \<^verbatim>\<open>protocols\<close> are strings or objects with a \<^verbatim>\<open>scheme\<close>.
\<close>

record parsed_url =
  protocol :: string
  hostname :: string

datatype link_protocol = ProtocolName string | ProtocolOptions string bool

fun scheme_of :: "link_protocol \<Rightarrow> string" where
  "scheme_of (ProtocolName p) = p"
| "scheme_of (ProtocolOptions scheme optionalSlashes) = scheme"

record validate_ctx =
  defaultProtocol :: string
  protocols :: "link_protocol list"

text \<open>\<^verbatim>\<open>Link.configure({ defaultProtocol: "https", protocols: ["http", "https"], ... })\<close>\<close>

definition link_ctx :: validate_ctx where
  "link_ctx = \<lparr> defaultProtocol = ''https'',
                protocols = [ProtocolName ''http'', ProtocolName ''https''] \<rparr>"

text \<open>
  \<^verbatim>\<open>parsedUrl.protocol.replace(":", "")\<close> removes the first colon, which is
  \<open>remove1\<close> on the list of characters.
\<close>

definition isAllowedUri :: "(string \<Rightarrow> parsed_url option) \<Rightarrow> string \<Rightarrow> validate_ctx \<Rightarrow> bool" where
  "isAllowedUri new_URL url ctx =
     (case (if CHR '':'' \<in> set url
            then new_URL url
            else new_URL (defaultProtocol ctx @ ''://'' @ url)) of
        None \<Rightarrow> False
      | Some parsedUrl \<Rightarrow>
          let disallowedProtocols = [''ftp'', ''file'', ''mailto''];
              protocol = remove1 CHR '':'' (protocol parsedUrl)
          in
            if protocol \<in> set disallowedProtocols then False
            else
              let allowedProtocols = map scheme_of (protocols ctx) in
                if protocol \<notin> set allowedProtocols then False
                else
                  let disallowedDomains = [''example-phishing.com'', ''malicious-site.net''];
                      domain = hostname parsedUrl
                  in
                    if domain \<in> set disallowedDomains then False
                    else True)"

section \<open>Regular expressions of the source\<close>

text \<open>
  The source has two regular expression literals that matter here: \<^verbatim>\<open>inputRegex\<close> of
  \<^verbatim>\<open>custom-image.ts\<close> and the URL test of \<^verbatim>\<open>handleSaveLink\<close>. They are written as
  terms of a small syntax and run by a backtracking matcher in JavaScript's order of
  preference: an alternative tries its left branch first, \<^verbatim>\<open>+\<close> and \<^verbatim>\<open>?\<close> are greedy.
  Texts are strings of code units below 256, so \<^verbatim>\<open>\s\<close> is tab, line feed, vertical
  tab, form feed, carriage return, space and the no-break space, and \<^verbatim>\<open>.\<close> is every
  character but line feed and carriage return.
\<close>

datatype atom = Lit char | Dot | Space | NonSpace | OneOf string

definition white_space :: "char \<Rightarrow> bool" where
  "white_space ch = (ch \<in> set [CHR 0x09, CHR 0x0A, CHR 0x0B, CHR 0x0C, CHR 0x0D, CHR 0x20, CHR 0xA0])"

definition line_terminator :: "char \<Rightarrow> bool" where
  "line_terminator ch = (ch \<in> set [CHR 0x0A, CHR 0x0D])"

fun atom_matches :: "atom \<Rightarrow> char \<Rightarrow> bool" where
  "atom_matches (Lit l) ch = (ch = l)"
| "atom_matches Dot ch = (\<not> line_terminator ch)"
| "atom_matches Space ch = white_space ch"
| "atom_matches NonSpace ch = (\<not> white_space ch)"
| "atom_matches (OneOf cs) ch = (ch \<in> set cs)"

text \<open>
  \<open>Bol\<close> is \<^verbatim>\<open>^\<close> and \<open>Eol\<close> is \<^verbatim>\<open>$\<close> (no \<^verbatim>\<open>m\<close> flag: the start and the end of
  the text), \<open>PlusAtom a\<close> is \<^verbatim>\<open>a+\<close>, \<open>Opt r\<close> is \<^verbatim>\<open>r?\<close>, \<open>Group g r\<close> is the
  \<open>g\<close>-th capturing group.
\<close>

datatype regex =
  Eps
| Atom atom
| Bol
| Eol
| Seq regex regex
| Alt regex regex
| Opt regex
| PlusAtom atom
| Group nat regex

text \<open>
  A matcher state is the text still to be read and the captures made so far (the latest
  first). \<open>ms n r st\<close> lists the states in which a match of \<open>r\<close> from \<open>st\<close> can end,
  in the order in which a backtracking matcher tries them; \<open>n\<close> is the length of the
  whole text, by which \<open>Bol\<close> knows the start.
\<close>

type_synonym captures = "(nat \<times> string) list"

fun plus_atom :: "atom \<Rightarrow> string \<Rightarrow> string list" where
  "plus_atom a [] = []"
| "plus_atom a (x # xs) = (if atom_matches a x then plus_atom a xs @ [xs] else [])"

fun ms :: "nat \<Rightarrow> regex \<Rightarrow> string \<times> captures \<Rightarrow> (string \<times> captures) list" where
  "ms n Eps st = [st]"
| "ms n (Atom a) (s, c) =
     (case s of [] \<Rightarrow> [] | x # xs \<Rightarrow> if atom_matches a x then [(xs, c)] else [])"
| "ms n Bol (s, c) = (if length s = n then [(s, c)] else [])"
| "ms n Eol (s, c) = (if s = [] then [(s, c)] else [])"
| "ms n (Seq r1 r2) st = concat (map (ms n r2) (ms n r1 st))"
| "ms n (Alt r1 r2) st = ms n r1 st @ ms n r2 st"
| "ms n (Opt r) st = ms n r st @ [st]"
| "ms n (PlusAtom a) (s, c) = map (\<lambda>s'. (s', c)) (plus_atom a s)"
| "ms n (Group g r) (s, c) =
     map (\<lambda>(s', c'). (s', (g, take (length s - length s') s) # c')) (ms n r (s, c))"

text \<open>
  \<^verbatim>\<open>regex.exec(text)\<close> without the \<^verbatim>\<open>g\<close> flag tries the start positions from the left
  and returns the first match: the array of the matched text and the groups
  (\<^verbatim>\<open>undefined\<close> for a group that took no part). \<^verbatim>\<open>regex.test(text)\<close> says whether
  there is one.
\<close>

fun group_count :: "regex \<Rightarrow> nat" where
  "group_count (Seq r1 r2) = max (group_count r1) (group_count r2)"
| "group_count (Alt r1 r2) = max (group_count r1) (group_count r2)"
| "group_count (Opt r) = group_count r"
| "group_count (Group g r) = max g (group_count r)"
| "group_count r = 0"

definition match_array :: "regex \<Rightarrow> string \<Rightarrow> captures \<Rightarrow> jsval list" where
  "match_array r whole c =
     Str whole # map (\<lambda>g. case map_of c g of None \<Rightarrow> Undefined | Some v \<Rightarrow> Str v)
                   [1 ..< Suc (group_count r)]"

fun exec_at :: "nat \<Rightarrow> regex \<Rightarrow> string \<Rightarrow> jsval list option" where
  "exec_at n r s =
     (case ms n r (s, []) of
        (s', c) # others \<Rightarrow> Some (match_array r (take (length s - length s') s) c)
      | [] \<Rightarrow> (case s of [] \<Rightarrow> None | x # xs \<Rightarrow> exec_at n r xs))"

definition regex_exec :: "regex \<Rightarrow> string \<Rightarrow> jsval list option" where
  "regex_exec r text = exec_at (length text) r text"

definition regex_test :: "regex \<Rightarrow> string \<Rightarrow> bool" where
  "regex_test r text = (regex_exec r text \<noteq> None)"

fun seq :: "regex list \<Rightarrow> regex" where
  "seq [] = Eps"
| "seq [r] = r"
| "seq (r # rs) = Seq r (seq rs)"

definition lit :: "char \<Rightarrow> regex" where
  "lit ch = Atom (Lit ch)"

section \<open>The media node schema (custom-image.ts)\<close>

subsection \<open>Options and the DOM\<close>

record custom_image_options =
  inline :: bool
  allowBase64 :: bool
  HTMLAttributes :: "(string \<times> jsval) list"

definition addOptions :: custom_image_options where
  "addOptions = \<lparr> inline = True, allowBase64 = False, HTMLAttributes = [] \<rparr>"

text \<open>
  An HTML fragment is a tree of elements with a tag name (in lower case), attributes and
  children, and of text nodes. \<^verbatim>\<open>getAttribute\<close> gives the attribute's string or
  \<^verbatim>\<open>null\<close>.
\<close>

datatype dom = DomText string | DomElement string "(string \<times> string) list" "dom list"

fun getAttribute :: "dom \<Rightarrow> string \<Rightarrow> jsval" where
  "getAttribute (DomElement tg as cs) k = (case map_of as k of None \<Rightarrow> Null | Some v \<Rightarrow> Str v)"
| "getAttribute (DomText t) k = Null"

fun is_element :: "string \<Rightarrow> dom \<Rightarrow> bool" where
  "is_element name (DomElement tg as cs) = (tg = name)"
| "is_element name (DomText t) = False"

subsection \<open>Parsing\<close>


















subsection \<open>Serializing\<close>

text \<open>
  \<^verbatim>\<open>mergeAttributes\<close> of the editor's core assigns every entry of the second object into
  a copy of the first (the keys \<^verbatim>\<open>class\<close> and \<^verbatim>\<open>style\<close>, which it joins instead,
  are never keys of a rendered \<^verbatim>\<open>customImage\<close> attribute).
\<close>

definition mergeAttributes ::
  "(string \<times> jsval) list \<Rightarrow> (string \<times> jsval) list \<Rightarrow> (string \<times> jsval) list" where
  "mergeAttributes items item = fold (\<lambda>(k, v) merged. AList.update k v merged) item items"

text \<open>
  The attributes a node renders: for \<^verbatim>\<open>src\<close>, \<^verbatim>\<open>alt\<close> and \<^verbatim>\<open>title\<close>, which declare
  no \<^verbatim>\<open>renderHTML\<close>, the attribute's value under its name; for \<^verbatim>\<open>width\<close>,
  \<^verbatim>\<open>height\<close> and \<^verbatim>\<open>href\<close> what their \<^verbatim>\<open>renderHTML\<close> returns. The editor merges
  them in the order of declaration and passes the result to the node's
  \<^verbatim>\<open>renderHTML\<close> as \<^verbatim>\<open>HTMLAttributes\<close>.
\<close>

definition width_renderHTML :: "media_attrs \<Rightarrow> (string \<times> jsval) list" where
  "width_renderHTML attributes =
     (if \<not> truthy (width attributes) then [] else [(''width'', width attributes)])"

definition height_renderHTML :: "media_attrs \<Rightarrow> (string \<times> jsval) list" where
  "height_renderHTML attributes =
     (if \<not> truthy (height attributes) then [] else [(''height'', height attributes)])"

definition href_renderHTML :: "media_attrs \<Rightarrow> (string \<times> jsval) list" where
  "href_renderHTML attributes =
     (if \<not> truthy (href attributes) then [] else [(''href'', href attributes)])"

definition rendered_attributes :: "media_attrs \<Rightarrow> (string \<times> jsval) list" where
  "rendered_attributes attributes =
     foldl mergeAttributes []
       [[(''src'', src attributes)],
        [(''alt'', alt attributes)],
        [(''title'', title attributes)],
        width_renderHTML attributes,
        height_renderHTML attributes,
        href_renderHTML attributes]"

text \<open>
  \<^verbatim>\<open>renderHTML\<close> returns an output specification: a tag, an attribute object and
  children. A key the object lacks reads as \<^verbatim>\<open>undefined\<close>.
\<close>

datatype output_spec = Spec string "(string \<times> jsval) list" "output_spec list"

definition renderHTML :: "custom_image_options \<Rightarrow> (string \<times> jsval) list \<Rightarrow> output_spec" where
  "renderHTML options attrs =
     (let href_value = (case map_of attrs ''href'' of None \<Rightarrow> Undefined | Some v \<Rightarrow> v);
          imgAttributes = AList.delete ''href'' attrs;
          mergedImgAttributes = mergeAttributes (HTMLAttributes options) imgAttributes
      in
        if truthy href_value
        then Spec ''a'' [(''href'', href_value)] [Spec ''img'' mergedImgAttributes []]
        else Spec ''img'' mergedImgAttributes [])"

text \<open>
  The document engine builds the element of a specification: it sets every attribute
  whose value is neither \<^verbatim>\<open>null\<close> nor \<^verbatim>\<open>undefined\<close>, converted to a string.
\<close>

definition set_attributes :: "(string \<times> jsval) list \<Rightarrow> (string \<times> string) list" where
  "set_attributes attrs =
     map (\<lambda>(k, v). (k, to_string v)) (filter (\<lambda>(k, v). v \<noteq> Null \<and> v \<noteq> Undefined) attrs)"

fun render_spec :: "output_spec \<Rightarrow> dom" where
  "render_spec (Spec tg attrs children) = DomElement tg (set_attributes attrs) (map render_spec children)"

definition serialize :: "custom_image_options \<Rightarrow> media_attrs \<Rightarrow> dom" where
  "serialize options node = render_spec (renderHTML options (rendered_attributes node))"

fun attribute_names :: "dom \<Rightarrow> string list" where
  "attribute_names (DomText t) = []"
| "attribute_names (DomElement tg as cs) = map fst as @ concat (map attribute_names cs)"

subsection \<open>The input rule\<close>






section \<open>The attachment resolver (menu-bar.tsx)\<close>

subsection \<open>The document and the engine's range scan\<close>

text \<open>
  A document is a tree of nodes. Text nodes and \<^verbatim>\<open>customImage\<close> nodes are the two kinds
  the resolver looks at; \<open>LeafNode\<close> and \<open>Branch\<close> stand for the leaves and the nodes
  with content of every other type, under the name of their type. The engine counts
  positions by node size: a character of text is 1, a leaf is 1, and a node with content
  is its content and 2 for its two boundaries.
\<close>

datatype pmnode =
  TextNode string
| ImageNode media_attrs
| LeafNode string
| Branch string "pmnode list"

fun content :: "pmnode \<Rightarrow> pmnode list" where
  "content (Branch nm cs) = cs"
| "content n = []"

fun nodeSize :: "pmnode \<Rightarrow> nat" where
  "nodeSize (TextNode t) = length t"
| "nodeSize (ImageNode a) = 1"
| "nodeSize (LeafNode nm) = 1"
| "nodeSize (Branch nm cs) = 2 + sum_list (map nodeSize cs)"

definition content_size :: "pmnode list \<Rightarrow> nat" where
  "content_size cs = sum_list (map nodeSize cs)"

text \<open>
  The engine's \<^verbatim>\<open>nodesBetween(from, to, f)\<close>, on the children of a node: it walks
  the children that overlap the range, calls \<^verbatim>\<open>f(child, position)\<close> on each, and walks
  into a child with content unless \<^verbatim>\<open>f\<close> returned \<^verbatim>\<open>false\<close>, with the range made
  relative to the child and cut to its content. The callback of the source assigns to
  variables outside it: here it takes their value and returns the new value with its
  result. \<open>pos\<close> is the offset of the first child of the list in its parent. A
  selection lies inside the document, so \<open>to_pos\<close> never exceeds the content.
\<close>

function nodesBetween ::
  "(pmnode \<Rightarrow> nat \<Rightarrow> 'st \<Rightarrow> 'st \<times> bool) \<Rightarrow> pmnode list \<Rightarrow> nat \<Rightarrow> nat \<Rightarrow> nat \<Rightarrow> nat \<Rightarrow> 'st \<Rightarrow> 'st" where
  "nodesBetween f [] from_pos to_pos nodeStart pos st = st"
| "nodesBetween f (child # rest) from_pos to_pos nodeStart pos st =
     (if pos < to_pos then
        let end_pos = pos + nodeSize child;
            st' = (if end_pos > from_pos then
                     (case f child (nodeStart + pos) st of
                        (st1, descend) \<Rightarrow>
                          if descend \<and> content_size (content child) \<noteq> 0 then
                            let start = pos + 1 in
                              nodesBetween f (content child)
                                (from_pos - start)
                                (min (content_size (content child)) (to_pos - start))
                                (nodeStart + start) 0 st1
                          else st1)
                   else st)
        in nodesBetween f rest from_pos to_pos nodeStart end_pos st'
      else st)"
  by pat_completeness auto
termination
proof (relation "measure (\<lambda>(f, cs, from_pos, to_pos, nodeStart, pos, st). size_list size cs)")
  show "wf (measure (\<lambda>(f, cs, from_pos, to_pos, nodeStart, pos, st). size_list size cs))"
    by simp
next
  fix f :: "pmnode \<Rightarrow> nat \<Rightarrow> 'st \<Rightarrow> 'st \<times> bool"
  fix child rest and from_pos to_pos nodeStart pos :: nat and st :: 'st
  fix x xa y xb
  show "((f, content child, from_pos - xb, min (content_size (content child)) (to_pos - xb),
          nodeStart + xb, 0, xa),
         (f, child # rest, from_pos, to_pos, nodeStart, pos, st))
        \<in> measure (\<lambda>(f, cs, from_pos, to_pos, nodeStart, pos, st). size_list size cs)"
    by (cases child) simp_all
next
  fix f :: "pmnode \<Rightarrow> nat \<Rightarrow> 'st \<Rightarrow> 'st \<times> bool"
  fix child rest and from_pos to_pos nodeStart pos :: nat and st :: 'st
  fix x xa
  show "((f, rest, from_pos, to_pos, nodeStart, x, xa),
         (f, child # rest, from_pos, to_pos, nodeStart, pos, st))
        \<in> measure (\<lambda>(f, cs, from_pos, to_pos, nodeStart, pos, st). size_list size cs)"
    by simp
qed

subsection \<open>Finding the selected image\<close>

text \<open>
  \<^verbatim>\<open>setLink\<close>, \<^verbatim>\<open>handleSaveLink\<close> and \<^verbatim>\<open>unsetLink\<close> run the same scan over the
  selection: the callback stores a \<^verbatim>\<open>customImage\<close> node with its position and returns
  \<^verbatim>\<open>false\<close>, and returns \<^verbatim>\<open>true\<close> on every other node. What is stored of the node
  is its attributes, the one thing read from it afterwards.
\<close>

definition image_callback ::
  "pmnode \<Rightarrow> nat \<Rightarrow> (media_attrs \<times> nat) option \<Rightarrow> (media_attrs \<times> nat) option \<times> bool" where
  "image_callback n p found =
     (case n of ImageNode attrs \<Rightarrow> (Some (attrs, p), False) | other \<Rightarrow> (found, True))"

definition find_image :: "pmnode list \<Rightarrow> nat \<Rightarrow> nat \<Rightarrow> (media_attrs \<times> nat) option" where
  "find_image doc_content from_pos to_pos =
     nodesBetween image_callback doc_content from_pos to_pos 0 0 None"

subsection \<open>The link dialog\<close>

record link_dialog =
  isLinkDialogOpen :: bool
  linkUrl :: jsval
  linkError :: "string option"

text \<open>
  \<^verbatim>\<open>setLink\<close> opens the dialog. \<open>link_href\<close> is \<^verbatim>\<open>editor.getAttributes("link").href\<close>,
  the destination of the link mark at the selection.
\<close>

definition setLink :: "pmnode list \<Rightarrow> nat \<Rightarrow> nat \<Rightarrow> jsval \<Rightarrow> link_dialog \<Rightarrow> link_dialog" where
  "setLink doc_content from_pos to_pos link_href dialog =
     (case find_image doc_content from_pos to_pos of
        Some (attrs, p) \<Rightarrow>
          let currentHref = (if truthy (href attrs) then href attrs else Str '''') in
            dialog\<lparr> linkUrl := currentHref, isLinkDialogOpen := True \<rparr>
      | None \<Rightarrow>
          let previousUrl = (if truthy link_href then link_href else Str '''') in
            dialog\<lparr> linkUrl := previousUrl, isLinkDialogOpen := True \<rparr>)"

text \<open>\<^verbatim>\<open>/^https?:\/\/.+$/\<close>\<close>

definition linkRegex :: regex where
  "linkRegex =
     seq [Bol, lit CHR ''h'', lit CHR ''t'', lit CHR ''t'', lit CHR ''p'', Opt (lit CHR ''s''),
          lit CHR '':'', lit CHR ''/'', lit CHR ''/'', PlusAtom Dot, Eol]"

text \<open>
  \<^verbatim>\<open>handleSaveLink\<close> returns the dialog's new state and the command it runs on the
  editor, if any: the rewrite of the node at a position with new attributes
  (\<^verbatim>\<open>tr.setNodeMarkup(pos, undefined, newAttrs)\<close>), or, for a text selection, the removal
  or the setting of the link mark on the extended mark range. A failure of the latter
  is shown as a notification and changes nothing else.
\<close>

datatype editor_command =
  SetNodeMarkup nat media_attrs
| UnsetLinkMark
| SetLinkMark jsval

definition handleSaveLink ::
  "pmnode list \<Rightarrow> nat \<Rightarrow> nat \<Rightarrow> link_dialog \<Rightarrow> link_dialog \<times> editor_command option" where
  "handleSaveLink doc_content from_pos to_pos dialog =
     (if truthy (linkUrl dialog) \<and> \<not> regex_test linkRegex (to_string (linkUrl dialog))
      then (dialog\<lparr> linkError := Some ''Please enter a valid URL (e.g., https://example.com)'' \<rparr>,
            None)
      else
        let command =
              (case find_image doc_content from_pos to_pos of
                 Some (attrs, p) \<Rightarrow>
                   let newAttrs = attrs\<lparr> href := (if truthy (linkUrl dialog) then linkUrl dialog
                                                  else Null) \<rparr>
                   in SetNodeMarkup p newAttrs
               | None \<Rightarrow>
                   if linkUrl dialog = Str '''' then UnsetLinkMark
                   else SetLinkMark (linkUrl dialog))
        in (dialog\<lparr> isLinkDialogOpen := False, linkUrl := Str '''', linkError := None \<rparr>,
            Some command))"

text \<open>
  The images of a document with their positions, written apart from the scan to say
  what a selection contains: \<open>images_in cs p\<close> lists the \<^verbatim>\<open>customImage\<close> nodes below
  the nodes \<open>cs\<close>, the first of which starts at position \<open>p\<close>. An image occupies the
  positions from its own to the next, so it lies in the range of a selection when its
  position is below \<open>to_pos\<close> and the next is above \<open>from_pos\<close>.
\<close>

fun images_in :: "pmnode list \<Rightarrow> nat \<Rightarrow> (nat \<times> media_attrs) list" where
  "images_in [] p = []"
| "images_in (TextNode t # rest) p = images_in rest (p + length t)"
| "images_in (ImageNode a # rest) p = (p, a) # images_in rest (p + 1)"
| "images_in (LeafNode nm # rest) p = images_in rest (p + 1)"
| "images_in (Branch nm cs # rest) p =
     images_in cs (p + 1) @ images_in rest (p + 2 + sum_list (map nodeSize cs))"

definition image_in_range :: "pmnode list \<Rightarrow> nat \<Rightarrow> nat \<Rightarrow> nat \<Rightarrow> media_attrs \<Rightarrow> bool" where
  "image_in_range doc_content from_pos to_pos p a =
     ((p, a) \<in> set (images_in doc_content 0) \<and> from_pos < p + 1 \<and> p < to_pos)"

section \<open>Properties of the matcher\<close>





lemma ms_Seq_iff:
  "st'' \<in> set (ms n (Seq r1 r2) st) \<longleftrightarrow> (\<exists>st'. st' \<in> set (ms n r1 st) \<and> st'' \<in> set (ms n r2 st'))"
  by auto








section \<open>Properties of the upload pipeline\<close>

lemma toast_errors_append: "toast_errors (xs @ ys) = toast_errors xs @ toast_errors ys"
  by (induction xs rule: toast_errors.induct) simp_all

lemma uploads_append: "uploads (xs @ ys) = uploads xs @ uploads ys"
  by (induction xs rule: uploads.induct) simp_all


lemma toast_errors_uploads: "toast_errors (map UploadFile fs) = []"
  by (induction fs) simp_all

lemma uploads_map: "uploads (map UploadFile fs) = fs"
  by (induction fs) simp_all

lemma filter_accepted_nonempty: "\<exists>f\<in>set fs. accepted f \<Longrightarrow> filter (\<lambda>f. accepted f) fs \<noteq> []"
  by (simp add: filter_empty_conv)

lemma handleDrop_accepting:
  assumes "\<exists>f\<in>set fs. accepted f"
  shows "handleDrop view (Some fs) =
     (True,
      [ConsoleLog ''Dropped files:''] @
      (if \<exists>f\<in>set fs. \<not> accepted f
       then [ToastError ''Please Drop only valid image files (JPEG, PNG, or GIF)''] else []) @
      [PreventDefault] @ map UploadFile (filter (\<lambda>f. accepted f) fs),
      map (\<lambda>f. \<lparr> task_file = f, task_pos = selection_from view \<rparr>) (filter (\<lambda>f. accepted f) fs))"
proof -
  from assms have ne: "fs \<noteq> []" by auto
  from assms have im: "filter (\<lambda>f. accepted f) fs \<noteq> []" by (rule filter_accepted_nonempty)
  have inv: "(filter (\<lambda>f. \<not> accepted f) fs \<noteq> []) = (\<exists>f\<in>set fs. \<not> accepted f)"
    by (simp add: filter_empty_conv)
  show ?thesis
    using ne im inv by (simp add: handleDrop_def Let_def)
qed

lemma handlePaste_accepting:
  assumes "\<exists>f\<in>set fs. accepted f"
  shows "handlePaste view (Some fs) =
     (True,
      (if \<exists>f\<in>set fs. \<not> accepted f
       then [ToastError ''Please paste only valid image files (JPEG, PNG, or GIF).''] else []) @
      [PreventDefault] @ map UploadFile (filter (\<lambda>f. accepted f) fs),
      map (\<lambda>f. \<lparr> task_file = f, task_pos = selection_from view \<rparr>) (filter (\<lambda>f. accepted f) fs))"
proof -
  from assms have ne: "fs \<noteq> []" by auto
  from assms have im: "filter (\<lambda>f. accepted f) fs \<noteq> []" by (rule filter_accepted_nonempty)
  have inv: "(filter (\<lambda>f. \<not> accepted f) fs \<noteq> []) = (\<exists>f\<in>set fs. \<not> accepted f)"
    by (simp add: filter_empty_conv)
  show ?thesis
    using ne im inv by (simp add: handlePaste_def Let_def)
qed

lemma handleDrop_rejecting:
  assumes "fs \<noteq> []" "\<forall>f\<in>set fs. \<not> accepted f"
  shows "handleDrop view (Some fs) =
     (False, [ConsoleLog ''Dropped files:'',
              ToastError ''Please Drop only valid image files (JPEG, PNG, or GIF)''], [])"
proof -
  from assms have im: "filter (\<lambda>f. accepted f) fs = []" by (simp add: filter_empty_conv)
  from assms have inv: "filter (\<lambda>f. \<not> accepted f) fs \<noteq> []"
    by (cases fs) (auto simp: filter_empty_conv)
  show ?thesis using assms(1) im inv by (simp add: handleDrop_def Let_def)
qed

lemma handlePaste_rejecting:
  assumes "fs \<noteq> []" "\<forall>f\<in>set fs. \<not> accepted f"
  shows "handlePaste view (Some fs) =
     (False, [ToastError ''Please paste only valid image files (JPEG, PNG, or GIF).''], [])"
proof -
  from assms have im: "filter (\<lambda>f. accepted f) fs = []" by (simp add: filter_empty_conv)
  from assms have inv: "filter (\<lambda>f. \<not> accepted f) fs \<noteq> []"
    by (cases fs) (auto simp: filter_empty_conv)
  show ?thesis using assms(1) im inv by (simp add: handlePaste_def Let_def)
qed





lemma node_create_src:
  "node_create [(''src'', Str u)] =
     \<lparr> src = Str u, alt = Null, title = Null, width = Null, height = Null, href = Null \<rparr>"
  by (simp add: node_create_def attr_or_default_def attr_default_def)

lemma drop_settled_success:
  "tr_insert v (task_pos t)
     \<lparr> src = Str u, alt = Null, title = Null, width = Null, height = Null, href = Null \<rparr> =
     Some v' \<Longrightarrow>
   drop_settled tr_insert t (Inr u) v =
     (v', [TrInsert (task_pos t)
             \<lparr> src = Str u, alt = Null, title = Null, width = Null, height = Null, href = Null \<rparr>,
           ConsoleLog ''Dropped image inserted:'',
           ToastSuccess (''Image \"'' @ file_name (task_file t) @ ''\" uploaded successfully!'')])"
  by (simp add: drop_settled_def Let_def node_create_src)

lemma paste_settled_success:
  "tr_insert v (task_pos t)
     \<lparr> src = Str u, alt = Null, title = Null, width = Null, height = Null, href = Null \<rparr> =
     Some v' \<Longrightarrow>
   paste_settled tr_insert t (Inr u) v =
     (v', [TrInsert (task_pos t)
             \<lparr> src = Str u, alt = Null, title = Null, width = Null, height = Null, href = Null \<rparr>,
           ConsoleLog ''Pasted image inserted:'',
           ToastSuccess (''Image \"'' @ file_name (task_file t) @ ''\" uploaded successfully!'')])"
  by (simp add: paste_settled_def Let_def node_create_src)




text \<open>
  Claim C8. A drop or paste gesture with at least one rejected file shows exactly one
  warning, whatever the number of rejected files. If every file is rejected the handler
  returns \<^verbatim>\<open>false\<close> after the warning and starts nothing; if some file is accepted,
  the handler starts one upload per accepted file, in order. The continuation of a
  fulfilled upload whose insertion the engine accepts leaves the view in the state the
  engine gives for the insertion of one node with that \<^verbatim>\<open>src\<close> at the task's
  position, and reports the success and no error.
\<close>

theorem rejected_files_one_warning:
  assumes "\<exists>f\<in>set fs. \<not> accepted f"
  shows "toast_errors (fst (snd (handleDrop view (Some fs)))) =
           [''Please Drop only valid image files (JPEG, PNG, or GIF)''] \<and>
         toast_errors (fst (snd (handlePaste view (Some fs)))) =
           [''Please paste only valid image files (JPEG, PNG, or GIF).''] \<and>
         ((\<forall>f\<in>set fs. \<not> accepted f) \<longrightarrow>
            handleDrop view (Some fs) =
              (False, [ConsoleLog ''Dropped files:'',
                       ToastError ''Please Drop only valid image files (JPEG, PNG, or GIF)''], []) \<and>
            handlePaste view (Some fs) =
              (False, [ToastError ''Please paste only valid image files (JPEG, PNG, or GIF).''], [])) \<and>
         ((\<exists>f\<in>set fs. accepted f) \<longrightarrow>
            fst (handleDrop view (Some fs)) \<and>
            uploads (fst (snd (handleDrop view (Some fs)))) = filter (\<lambda>f. accepted f) fs \<and>
            map task_file (snd (snd (handleDrop view (Some fs)))) = filter (\<lambda>f. accepted f) fs \<and>
            fst (handlePaste view (Some fs)) \<and>
            uploads (fst (snd (handlePaste view (Some fs)))) = filter (\<lambda>f. accepted f) fs \<and>
            map task_file (snd (snd (handlePaste view (Some fs)))) = filter (\<lambda>f. accepted f) fs) \<and>
         (\<forall>tr_insert t u v v'.
            tr_insert v (task_pos t)
              \<lparr> src = Str u, alt = Null, title = Null, width = Null, height = Null, href = Null \<rparr> =
              Some v' \<longrightarrow>
            drop_settled tr_insert t (Inr u) v =
              (v',
               [TrInsert (task_pos t)
                  \<lparr> src = Str u, alt = Null, title = Null, width = Null, height = Null,
                    href = Null \<rparr>,
                ConsoleLog ''Dropped image inserted:'',
                ToastSuccess (''Image \"'' @ file_name (task_file t) @ ''\" uploaded successfully!'')]) \<and>
            paste_settled tr_insert t (Inr u) v =
              (v',
               [TrInsert (task_pos t)
                  \<lparr> src = Str u, alt = Null, title = Null, width = Null, height = Null,
                    href = Null \<rparr>,
                ConsoleLog ''Pasted image inserted:'',
                ToastSuccess (''Image \"'' @ file_name (task_file t) @ ''\" uploaded successfully!'')]) \<and>
            inserted_nodes (snd (drop_settled tr_insert t (Inr u) v)) =
              [\<lparr> src = Str u, alt = Null, title = Null, width = Null, height = Null, href = Null \<rparr>] \<and>
            toast_errors (snd (drop_settled tr_insert t (Inr u) v)) = [] \<and>
            inserted_nodes (snd (paste_settled tr_insert t (Inr u) v)) =
              [\<lparr> src = Str u, alt = Null, title = Null, width = Null, height = Null, href = Null \<rparr>] \<and>
            toast_errors (snd (paste_settled tr_insert t (Inr u) v)) = [])"
proof -
  from assms have ne: "fs \<noteq> []" by auto
  have w1: "toast_errors (fst (snd (handleDrop view (Some fs)))) =
           [''Please Drop only valid image files (JPEG, PNG, or GIF)'']"
  proof (cases "\<exists>f\<in>set fs. accepted f")
    case True
    show ?thesis using assms
      by (simp add: handleDrop_accepting[OF True] toast_errors_append toast_errors_uploads)
  next
    case False
    then show ?thesis using handleDrop_rejecting[OF ne, of view] by simp
  qed
  have w2: "toast_errors (fst (snd (handlePaste view (Some fs)))) =
           [''Please paste only valid image files (JPEG, PNG, or GIF).'']"
  proof (cases "\<exists>f\<in>set fs. accepted f")
    case True
    show ?thesis using assms
      by (simp add: handlePaste_accepting[OF True] toast_errors_append toast_errors_uploads)
  next
    case False
    then show ?thesis using handlePaste_rejecting[OF ne, of view] by simp
  qed
  have r: "(\<forall>f\<in>set fs. \<not> accepted f) \<longrightarrow>
            handleDrop view (Some fs) =
              (False, [ConsoleLog ''Dropped files:'',
                       ToastError ''Please Drop only valid image files (JPEG, PNG, or GIF)''], []) \<and>
            handlePaste view (Some fs) =
              (False, [ToastError ''Please paste only valid image files (JPEG, PNG, or GIF).''], [])"
    using handleDrop_rejecting[OF ne, of view] handlePaste_rejecting[OF ne, of view] by blast
  have a: "(\<exists>f\<in>set fs. accepted f) \<longrightarrow>
            fst (handleDrop view (Some fs)) \<and>
            uploads (fst (snd (handleDrop view (Some fs)))) = filter (\<lambda>f. accepted f) fs \<and>
            map task_file (snd (snd (handleDrop view (Some fs)))) = filter (\<lambda>f. accepted f) fs \<and>
            fst (handlePaste view (Some fs)) \<and>
            uploads (fst (snd (handlePaste view (Some fs)))) = filter (\<lambda>f. accepted f) fs \<and>
            map task_file (snd (snd (handlePaste view (Some fs)))) = filter (\<lambda>f. accepted f) fs"
  proof
    assume acc: "\<exists>f\<in>set fs. accepted f"
    show "fst (handleDrop view (Some fs)) \<and>
            uploads (fst (snd (handleDrop view (Some fs)))) = filter (\<lambda>f. accepted f) fs \<and>
            map task_file (snd (snd (handleDrop view (Some fs)))) = filter (\<lambda>f. accepted f) fs \<and>
            fst (handlePaste view (Some fs)) \<and>
            uploads (fst (snd (handlePaste view (Some fs)))) = filter (\<lambda>f. accepted f) fs \<and>
            map task_file (snd (snd (handlePaste view (Some fs)))) = filter (\<lambda>f. accepted f) fs"
      by (simp add: handleDrop_accepting[OF acc] handlePaste_accepting[OF acc]
            uploads_append uploads_map comp_def)
  qed
  show ?thesis
    using w1 w2 r a by (simp add: drop_settled_success paste_settled_success)
qed

theorem rejected_files_one_warning_witness:
  "(\<exists>f\<in>set [\<lparr> file_name = ''a.png'', file_type = ''image/png'' \<rparr>,
              \<lparr> file_name = ''notes.txt'', file_type = ''text/plain'' \<rparr>]. \<not> accepted f) \<and>
   (\<exists>f\<in>set [\<lparr> file_name = ''a.png'', file_type = ''image/png'' \<rparr>,
              \<lparr> file_name = ''notes.txt'', file_type = ''text/plain'' \<rparr>]. accepted f) \<and>
   handleDrop \<lparr> doc = [] :: (nat \<times> media_attrs) list, selection_from = 3 \<rparr>
      (Some [\<lparr> file_name = ''a.png'', file_type = ''image/png'' \<rparr>,
             \<lparr> file_name = ''notes.txt'', file_type = ''text/plain'' \<rparr>]) =
     (True,
      [ConsoleLog ''Dropped files:'',
       ToastError ''Please Drop only valid image files (JPEG, PNG, or GIF)'',
       PreventDefault,
       UploadFile \<lparr> file_name = ''a.png'', file_type = ''image/png'' \<rparr>],
      [\<lparr> task_file = \<lparr> file_name = ''a.png'', file_type = ''image/png'' \<rparr>, task_pos = 3 \<rparr>]) \<and>
   run_async (drop_settled (\<lambda>v p n. Some (v\<lparr> doc := (p, n) # doc v \<rparr>)))
      [Some \<lparr> task_file = \<lparr> file_name = ''a.png'', file_type = ''image/png'' \<rparr>, task_pos = 3 \<rparr>]
      \<lparr> doc = [], selection_from = 3 \<rparr> [Settled 0 (Inr ''/u/a.png'')] =
     (\<lparr> doc = [(3, \<lparr> src = Str ''/u/a.png'', alt = Null, title = Null, width = Null,
                      height = Null, href = Null \<rparr>)],
        selection_from = 3 \<rparr>,
      [TrInsert 3 \<lparr> src = Str ''/u/a.png'', alt = Null, title = Null, width = Null,
                    height = Null, href = Null \<rparr>,
       ConsoleLog ''Dropped image inserted:'',
       ToastSuccess ''Image \"a.png\" uploaded successfully!'']) \<and>
   \<not> accepted \<lparr> file_name = ''notes.txt'', file_type = ''text/plain'' \<rparr> \<and>
   handlePaste \<lparr> doc = [] :: (nat \<times> media_attrs) list, selection_from = 3 \<rparr>
      (Some [\<lparr> file_name = ''notes.txt'', file_type = ''text/plain'' \<rparr>]) =
     (False, [ToastError ''Please paste only valid image files (JPEG, PNG, or GIF).''], [])"
  using rejected_files_one_warning
    [of "[\<lparr> file_name = ''a.png'', file_type = ''image/png'' \<rparr>,
          \<lparr> file_name = ''notes.txt'', file_type = ''text/plain'' \<rparr>]"
        "\<lparr> doc = [] :: (nat \<times> media_attrs) list, selection_from = 3 \<rparr>"]
    rejected_files_one_warning
    [of "[\<lparr> file_name = ''notes.txt'', file_type = ''text/plain'' \<rparr>]"
        "\<lparr> doc = [] :: (nat \<times> media_attrs) list, selection_from = 3 \<rparr>"]
  by (simp add: handleDrop_def handlePaste_def accepted_def acceptedTypes_def drop_settled_def
        node_create_src Let_def)

section \<open>Properties of the file picker\<close>

lemma setImage_src_only:
  "setImage [(''src'', Str u), (''width'', Undefined), (''height'', Undefined)] =
     \<lparr> src = Str u, alt = Null, title = Null, width = Null, height = Null, href = Null \<rparr>"
  by (simp add: setImage_def node_create_def attr_or_default_def attr_default_def)

text \<open>
  Claim C10. With an editor present and a non-empty selection of files, the file picker's
  handler looks at the first file alone: the other files do not change what it does. An
  accepted first file starts exactly one upload; a first file of another type is reported
  and starts none. A fulfilled upload inserts one node, whose \<^verbatim>\<open>src\<close> is the uploaded
  URL and whose other attributes are \<^verbatim>\<open>null\<close>; a rejected upload inserts none, and the
  completion starts no further upload.
\<close>

theorem file_picker_first_file_only:
  "handleFileChange True (Some (f # rest)) = handleFileChange True (Some [f]) \<and>
   (accepted f \<longrightarrow>
      handleFileChange True (Some (f # rest)) = ([SetIsUploading True, UploadFile f], Some f)) \<and>
   (\<not> accepted f \<longrightarrow>
      handleFileChange True (Some (f # rest)) =
        ([ToastError ''Please select a valid image file (JPEG, PNG, or GIF).''], None)) \<and>
   set_image_nodes (fileChange_settled input_mounted (Inr u)) =
     [\<lparr> src = Str u, alt = Null, title = Null, width = Null, height = Null, href = Null \<rparr>] \<and>
   set_image_nodes (fileChange_settled input_mounted (Inl e)) = [] \<and>
   uploads (fileChange_settled input_mounted outcome) = []"
  by (simp add: handleFileChange_def accepted_def fileChange_settled_def setImage_src_only
        split: sum.splits)

theorem file_picker_first_file_only_witness:
  "accepted \<lparr> file_name = ''a.png'', file_type = ''image/png'' \<rparr> \<and>
   handleFileChange True
     (Some [\<lparr> file_name = ''a.png'', file_type = ''image/png'' \<rparr>,
            \<lparr> file_name = ''b.gif'', file_type = ''image/gif'' \<rparr>,
            \<lparr> file_name = ''c.jpg'', file_type = ''image/jpeg'' \<rparr>]) =
     ([SetIsUploading True, UploadFile \<lparr> file_name = ''a.png'', file_type = ''image/png'' \<rparr>],
      Some \<lparr> file_name = ''a.png'', file_type = ''image/png'' \<rparr>) \<and>
   \<not> accepted \<lparr> file_name = ''notes.txt'', file_type = ''text/plain'' \<rparr> \<and>
   handleFileChange True
     (Some [\<lparr> file_name = ''notes.txt'', file_type = ''text/plain'' \<rparr>,
            \<lparr> file_name = ''b.gif'', file_type = ''image/gif'' \<rparr>]) =
     ([ToastError ''Please select a valid image file (JPEG, PNG, or GIF).''], None)"
  using file_picker_first_file_only
    [of "\<lparr> file_name = ''a.png'', file_type = ''image/png'' \<rparr>"
        "[\<lparr> file_name = ''b.gif'', file_type = ''image/gif'' \<rparr>,
          \<lparr> file_name = ''c.jpg'', file_type = ''image/jpeg'' \<rparr>]"]
    file_picker_first_file_only
    [of "\<lparr> file_name = ''notes.txt'', file_type = ''text/plain'' \<rparr>"
        "[\<lparr> file_name = ''b.gif'', file_type = ''image/gif'' \<rparr>]"]
  by (simp add: accepted_def acceptedTypes_def handleFileChange_def)

section \<open>Properties of the URL policy\<close>

text \<open>
  Claim C7. \<^verbatim>\<open>isAllowedUri\<close> parses the raw URL as it is when it contains a colon and
  with \<^verbatim>\<open>defaultProtocol://\<close> in front otherwise; a parse exception rejects; a parsed
  URL is accepted exactly when its protocol is none of \<^verbatim>\<open>ftp\<close>, \<^verbatim>\<open>file\<close>,
  \<^verbatim>\<open>mailto\<close>, is one of the context's protocols, and its host is not on the
  denylist. With a parser that gives \<^verbatim>\<open>javascript:alert(1)\<close> the protocol
  \<^verbatim>\<open>javascript:\<close> (or throws), that URL is rejected under the configured context;
  \<^verbatim>\<open>ftp://host/x\<close> is rejected under every context; and \<^verbatim>\<open>example.com\<close> is parsed
  as \<^verbatim>\<open>https://example.com\<close> and accepted.
\<close>

theorem isAllowedUri_policy:
  "(new_URL (if CHR '':'' \<in> set url then url else defaultProtocol ctx @ ''://'' @ url) = None \<longrightarrow>
      \<not> isAllowedUri new_URL url ctx) \<and>
   (\<forall>u. new_URL (if CHR '':'' \<in> set url then url else defaultProtocol ctx @ ''://'' @ url) = Some u \<longrightarrow>
      isAllowedUri new_URL url ctx =
        (remove1 CHR '':'' (protocol u) \<notin> {''ftp'', ''file'', ''mailto''} \<and>
         remove1 CHR '':'' (protocol u) \<in> scheme_of ` set (protocols ctx) \<and>
         hostname u \<notin> {''example-phishing.com'', ''malicious-site.net''})) \<and>
   ((\<forall>u. new_URL ''javascript:alert(1)'' = Some u \<longrightarrow> protocol u = ''javascript:'') \<longrightarrow>
      \<not> isAllowedUri new_URL ''javascript:alert(1)'' link_ctx) \<and>
   ((\<forall>u. new_URL ''ftp://host/x'' = Some u \<longrightarrow> protocol u = ''ftp:'') \<longrightarrow>
      \<not> isAllowedUri new_URL ''ftp://host/x'' ctx) \<and>
   (new_URL ''https://example.com'' = Some \<lparr> protocol = ''https:'', hostname = ''example.com'' \<rparr> \<longrightarrow>
      isAllowedUri new_URL ''example.com'' link_ctx)"
  by (auto simp: isAllowedUri_def link_ctx_def Let_def split: option.splits)

theorem isAllowedUri_policy_witness:
  "\<not> isAllowedUri
       (\<lambda>s. if s = ''javascript:alert(1)'' then Some \<lparr> protocol = ''javascript:'', hostname = '''' \<rparr>
            else if s = ''ftp://host/x'' then Some \<lparr> protocol = ''ftp:'', hostname = ''host'' \<rparr>
            else if s = ''https://example.com''
              then Some \<lparr> protocol = ''https:'', hostname = ''example.com'' \<rparr>
            else None)
       ''javascript:alert(1)'' link_ctx \<and>
   \<not> isAllowedUri
       (\<lambda>s. if s = ''javascript:alert(1)'' then Some \<lparr> protocol = ''javascript:'', hostname = '''' \<rparr>
            else if s = ''ftp://host/x'' then Some \<lparr> protocol = ''ftp:'', hostname = ''host'' \<rparr>
            else if s = ''https://example.com''
              then Some \<lparr> protocol = ''https:'', hostname = ''example.com'' \<rparr>
            else None)
       ''ftp://host/x'' link_ctx \<and>
   isAllowedUri
       (\<lambda>s. if s = ''javascript:alert(1)'' then Some \<lparr> protocol = ''javascript:'', hostname = '''' \<rparr>
            else if s = ''ftp://host/x'' then Some \<lparr> protocol = ''ftp:'', hostname = ''host'' \<rparr>
            else if s = ''https://example.com''
              then Some \<lparr> protocol = ''https:'', hostname = ''example.com'' \<rparr>
            else None)
       ''example.com'' link_ctx \<and>
   \<not> isAllowedUri (\<lambda>s. None) ''http://[bad'' link_ctx"
  using isAllowedUri_policy
    [of "(\<lambda>s. if s = ''javascript:alert(1)'' then Some \<lparr> protocol = ''javascript:'', hostname = '''' \<rparr>
            else if s = ''ftp://host/x'' then Some \<lparr> protocol = ''ftp:'', hostname = ''host'' \<rparr>
            else if s = ''https://example.com''
              then Some \<lparr> protocol = ''https:'', hostname = ''example.com'' \<rparr>
            else None)" "''example.com''" link_ctx]
    isAllowedUri_policy [of "\<lambda>s. None" "''http://[bad''" link_ctx]
  by (simp add: link_ctx_def)

section \<open>Properties of the media node schema\<close>


lemma truthy_not_null: "truthy v \<Longrightarrow> v \<noteq> Null \<and> v \<noteq> Undefined"
  by (cases v) simp_all

lemma rendered_attributes_eq:
  "rendered_attributes a =
     [(''src'', src a), (''alt'', alt a), (''title'', title a)] @
     (if truthy (width a) then [(''width'', width a)] else []) @
     (if truthy (height a) then [(''height'', height a)] else []) @
     (if truthy (href a) then [(''href'', href a)] else [])"
  by (simp add: rendered_attributes_def mergeAttributes_def width_renderHTML_def
        height_renderHTML_def href_renderHTML_def)

lemma rendered_href:
  "map_of (rendered_attributes a) ''href'' = (if truthy (href a) then Some (href a) else None)"
  by (simp add: rendered_attributes_eq)

lemma rendered_without_href:
  "AList.delete ''href'' (rendered_attributes a) =
     [(''src'', src a), (''alt'', alt a), (''title'', title a)] @
     (if truthy (width a) then [(''width'', width a)] else []) @
     (if truthy (height a) then [(''height'', height a)] else [])"
  by (simp add: rendered_attributes_eq AList.delete_eq)

lemma set_attributes_Nil: "set_attributes [] = []"
  by (simp add: set_attributes_def)

lemma set_attributes_Cons:
  "set_attributes ((k, v) # xs) =
     (if v = Null \<or> v = Undefined then set_attributes xs else (k, to_string v) # set_attributes xs)"
  by (simp add: set_attributes_def)

lemma set_attributes_append: "set_attributes (xs @ ys) = set_attributes xs @ set_attributes ys"
  by (simp add: set_attributes_def)

lemma serialize_options:
  "serialize options a =
     (let img = DomElement ''img''
                  (set_attributes
                     (mergeAttributes (HTMLAttributes options)
                        ([(''src'', src a), (''alt'', alt a), (''title'', title a)] @
                         (if truthy (width a) then [(''width'', width a)] else []) @
                         (if truthy (height a) then [(''height'', height a)] else []))))
                  []
      in if truthy (href a) then DomElement ''a'' [(''href'', to_string (href a))] [img] else img)"
proof -
  have h: "(case map_of (rendered_attributes a) ''href'' of None \<Rightarrow> Undefined | Some v \<Rightarrow> v) =
           (if truthy (href a) then href a else Undefined)"
    by (simp add: rendered_href)
  show ?thesis
    unfolding serialize_def renderHTML_def rendered_without_href h Let_def
    by (simp add: set_attributes_Cons set_attributes_Nil truthy_not_null)
qed

lemma map_of_mergeAttributes:
  "map_of (mergeAttributes items item) k =
     (case map_of (rev item) k of Some v \<Rightarrow> Some v | None \<Rightarrow> map_of items k)"
  unfolding mergeAttributes_def
proof (induction item arbitrary: items)
  case Nil
  then show ?case by simp
next
  case (Cons kv item)
  obtain k' v' where kv: "kv = (k', v')" by (cases kv)
  show ?case
    by (simp add: kv Cons.IH update_conv' map_add_def split: option.splits)
qed

lemma distinct_mergeAttributes:
  "distinct (map fst items) \<Longrightarrow> distinct (map fst (mergeAttributes items item))"
  unfolding mergeAttributes_def
proof (induction item arbitrary: items)
  case Nil
  then show ?case by simp
next
  case (Cons kv item)
  obtain k' v' where kv: "kv = (k', v')" by (cases kv)
  show ?case
    using Cons.prems by (simp add: kv Cons.IH distinct_update)
qed

lemma map_of_set_attributes:
  "distinct (map fst xs) \<Longrightarrow>
   map_of (set_attributes xs) k =
     (case map_of xs k of
        None \<Rightarrow> None
      | Some v \<Rightarrow> if v = Null \<or> v = Undefined then None else Some (to_string v))"
proof (induction xs)
  case Nil
  then show ?case by (simp add: set_attributes_Nil)
next
  case (Cons kv xs)
  obtain k' v' where kv: "kv = (k', v')" by (cases kv)
  from Cons.prems kv have d: "distinct (map fst xs)" and n: "k' \<notin> fst ` set xs" by auto
  from n have m: "map_of xs k' = None" by (simp add: map_of_eq_None_iff)
  show ?case
    using Cons.IH[OF d] m by (auto simp: kv set_attributes_Cons)
qed

lemma img_attribute_lookup:
  assumes "distinct (map fst D)"
  shows "map_of (set_attributes (mergeAttributes D
            ([(''src'', s), (''alt'', al), (''title'', t)] @
             (if truthy w then [(''width'', w)] else []) @
             (if truthy hg then [(''height'', hg)] else [])))) k =
         (if k = ''src'' then (if s = Null \<or> s = Undefined then None else Some (to_string s))
          else if k = ''alt'' then (if al = Null \<or> al = Undefined then None else Some (to_string al))
          else if k = ''title'' then (if t = Null \<or> t = Undefined then None else Some (to_string t))
          else if k = ''width'' \<and> truthy w then Some (to_string w)
          else if k = ''height'' \<and> truthy hg then Some (to_string hg)
          else map_of (set_attributes D) k)"
proof -
  let ?I = "[(''src'', s), (''alt'', al), (''title'', t)] @
             (if truthy w then [(''width'', w)] else []) @
             (if truthy hg then [(''height'', hg)] else [])"
  have r: "map_of (rev ?I) k =
      (if k = ''src'' then Some s else if k = ''alt'' then Some al
       else if k = ''title'' then Some t
       else if k = ''width'' \<and> truthy w then Some w
       else if k = ''height'' \<and> truthy hg then Some hg else None)"
    by simp
  have "map_of (set_attributes (mergeAttributes D ?I)) k =
      (case map_of (mergeAttributes D ?I) k of
        None \<Rightarrow> None
      | Some v \<Rightarrow> if v = Null \<or> v = Undefined then None else Some (to_string v))"
    by (rule map_of_set_attributes[OF distinct_mergeAttributes[OF assms]])
  also have "\<dots> =
         (if k = ''src'' then (if s = Null \<or> s = Undefined then None else Some (to_string s))
          else if k = ''alt'' then (if al = Null \<or> al = Undefined then None else Some (to_string al))
          else if k = ''title'' then (if t = Null \<or> t = Undefined then None else Some (to_string t))
          else if k = ''width'' \<and> truthy w then Some (to_string w)
          else if k = ''height'' \<and> truthy hg then Some (to_string hg)
          else map_of (set_attributes D) k)"
    unfolding map_of_mergeAttributes r map_of_set_attributes[OF assms]
    by (auto dest: truthy_not_null)
  finally show ?thesis .
qed

lemma serialize_addOptions:
  "serialize addOptions a =
     (let img = DomElement ''img''
                  ((if src a = Null \<or> src a = Undefined then [] else [(''src'', to_string (src a))]) @
                   (if alt a = Null \<or> alt a = Undefined then [] else [(''alt'', to_string (alt a))]) @
                   (if title a = Null \<or> title a = Undefined then []
                    else [(''title'', to_string (title a))]) @
                   (if truthy (width a) then [(''width'', to_string (width a))] else []) @
                   (if truthy (height a) then [(''height'', to_string (height a))] else []))
                  []
      in if truthy (href a) then DomElement ''a'' [(''href'', to_string (href a))] [img] else img)"
proof -
  have m: "mergeAttributes []
             ([(''src'', src a), (''alt'', alt a), (''title'', title a)] @
              (if truthy (width a) then [(''width'', width a)] else []) @
              (if truthy (height a) then [(''height'', height a)] else [])) =
           [(''src'', src a), (''alt'', alt a), (''title'', title a)] @
              (if truthy (width a) then [(''width'', width a)] else []) @
              (if truthy (height a) then [(''height'', height a)] else [])"
    by (simp add: mergeAttributes_def)
  have o: "HTMLAttributes addOptions = []" by (simp add: addOptions_def)
  show ?thesis
    unfolding serialize_options o m
    by (simp add: Let_def set_attributes_Nil set_attributes_Cons set_attributes_append
          truthy_not_null)
qed

lemma attribute_names_serialize:
  "set (attribute_names (serialize addOptions a)) =
     (if src a = Null \<or> src a = Undefined then {} else {''src''}) \<union>
     (if alt a = Null \<or> alt a = Undefined then {} else {''alt''}) \<union>
     (if title a = Null \<or> title a = Undefined then {} else {''title''}) \<union>
     (if truthy (width a) then {''width''} else {}) \<union>
     (if truthy (height a) then {''height''} else {}) \<union>
     (if truthy (href a) then {''href''} else {})"
  by (simp add: serialize_addOptions Let_def)

lemma serialize_wrapper:
  "is_element ''a'' (serialize options a) = truthy (href a) \<and>
   is_element ''img'' (serialize options a) = (\<not> truthy (href a))"
  by (simp add: serialize_options Let_def)

text \<open>
  Claim C4, amended. Under every setting of the options, a node serializes to an
  \<^verbatim>\<open>a\<close> element exactly when its \<^verbatim>\<open>href\<close> is truthy (neither \<^verbatim>\<open>null\<close> nor the
  empty string nor zero) and to an \<^verbatim>\<open>img\<close> element otherwise; the \<^verbatim>\<open>a\<close> element
  has the \<^verbatim>\<open>href\<close> as its one attribute and the \<^verbatim>\<open>img\<close> as its one child. The
  attributes of the \<^verbatim>\<open>img\<close> are the configured default attributes merged with the
  node's \<^verbatim>\<open>src\<close>, \<^verbatim>\<open>alt\<close> and \<^verbatim>\<open>title\<close> and with its \<^verbatim>\<open>width\<close> and \<^verbatim>\<open>height\<close>
  when these are truthy, less those that are \<^verbatim>\<open>null\<close> after the merge. So, the
  defaults having distinct names, \<^verbatim>\<open>src\<close>, \<^verbatim>\<open>alt\<close> and \<^verbatim>\<open>title\<close> are the node's
  (absent when it is \<^verbatim>\<open>null\<close>, whatever the default), \<^verbatim>\<open>width\<close> and \<^verbatim>\<open>height\<close> are
  the node's when truthy, and every other attribute, a \<^verbatim>\<open>width\<close> or \<^verbatim>\<open>height\<close> of
  a node that has none included, is the default. With the options of \<^verbatim>\<open>addOptions\<close>
  (no default attributes) the \<^verbatim>\<open>img\<close> carries \<^verbatim>\<open>src\<close>, \<^verbatim>\<open>alt\<close> and \<^verbatim>\<open>title\<close>
  when they are not \<^verbatim>\<open>null\<close>, and \<^verbatim>\<open>width\<close> and \<^verbatim>\<open>height\<close> when they are truthy,
  and an attribute whose value is \<^verbatim>\<open>null\<close> is nowhere in the output.
\<close>

theorem serialize_anchor_iff_href_truthy:
  "serialize options a =
     (let img = DomElement ''img''
                  (set_attributes
                     (mergeAttributes (HTMLAttributes options)
                        ([(''src'', src a), (''alt'', alt a), (''title'', title a)] @
                         (if truthy (width a) then [(''width'', width a)] else []) @
                         (if truthy (height a) then [(''height'', height a)] else []))))
                  []
      in if truthy (href a) then DomElement ''a'' [(''href'', to_string (href a))] [img] else img) \<and>
   (distinct (map fst (HTMLAttributes options)) \<longrightarrow>
      (\<forall>k. getAttribute
             (DomElement ''img''
                (set_attributes
                   (mergeAttributes (HTMLAttributes options)
                      ([(''src'', src a), (''alt'', alt a), (''title'', title a)] @
                       (if truthy (width a) then [(''width'', width a)] else []) @
                       (if truthy (height a) then [(''height'', height a)] else []))))
                []) k =
           (if k = ''src''
            then (if src a = Null \<or> src a = Undefined then Null else Str (to_string (src a)))
            else if k = ''alt''
            then (if alt a = Null \<or> alt a = Undefined then Null else Str (to_string (alt a)))
            else if k = ''title''
            then (if title a = Null \<or> title a = Undefined then Null else Str (to_string (title a)))
            else if k = ''width'' \<and> truthy (width a) then Str (to_string (width a))
            else if k = ''height'' \<and> truthy (height a) then Str (to_string (height a))
            else getAttribute (DomElement ''img'' (set_attributes (HTMLAttributes options)) []) k))) \<and>
   serialize addOptions a =
     (let img = DomElement ''img''
                  ((if src a = Null \<or> src a = Undefined then [] else [(''src'', to_string (src a))]) @
                   (if alt a = Null \<or> alt a = Undefined then [] else [(''alt'', to_string (alt a))]) @
                   (if title a = Null \<or> title a = Undefined then []
                    else [(''title'', to_string (title a))]) @
                   (if truthy (width a) then [(''width'', to_string (width a))] else []) @
                   (if truthy (height a) then [(''height'', to_string (height a))] else []))
                  []
      in if truthy (href a) then DomElement ''a'' [(''href'', to_string (href a))] [img] else img) \<and>
   (src a = Null \<longrightarrow> ''src'' \<notin> set (attribute_names (serialize addOptions a))) \<and>
   (alt a = Null \<longrightarrow> ''alt'' \<notin> set (attribute_names (serialize addOptions a))) \<and>
   (title a = Null \<longrightarrow> ''title'' \<notin> set (attribute_names (serialize addOptions a))) \<and>
   (width a = Null \<longrightarrow> ''width'' \<notin> set (attribute_names (serialize addOptions a))) \<and>
   (height a = Null \<longrightarrow> ''height'' \<notin> set (attribute_names (serialize addOptions a))) \<and>
   (href a = Null \<longrightarrow> ''href'' \<notin> set (attribute_names (serialize addOptions a))) \<and>
   is_element ''a'' (serialize options a) = truthy (href a) \<and>
   is_element ''img'' (serialize options a) = (\<not> truthy (href a))"
proof -
  have "src a = Null \<longrightarrow> ''src'' \<notin> set (attribute_names (serialize addOptions a))"
    unfolding attribute_names_serialize by simp
  moreover have "alt a = Null \<longrightarrow> ''alt'' \<notin> set (attribute_names (serialize addOptions a))"
    unfolding attribute_names_serialize by simp
  moreover have "title a = Null \<longrightarrow> ''title'' \<notin> set (attribute_names (serialize addOptions a))"
    unfolding attribute_names_serialize by simp
  moreover have "width a = Null \<longrightarrow> ''width'' \<notin> set (attribute_names (serialize addOptions a))"
    unfolding attribute_names_serialize by simp
  moreover have "height a = Null \<longrightarrow> ''height'' \<notin> set (attribute_names (serialize addOptions a))"
    unfolding attribute_names_serialize by simp
  moreover have "href a = Null \<longrightarrow> ''href'' \<notin> set (attribute_names (serialize addOptions a))"
    unfolding attribute_names_serialize by simp
  moreover have "distinct (map fst (HTMLAttributes options)) \<longrightarrow>
      (\<forall>k. getAttribute
             (DomElement ''img''
                (set_attributes
                   (mergeAttributes (HTMLAttributes options)
                      ([(''src'', src a), (''alt'', alt a), (''title'', title a)] @
                       (if truthy (width a) then [(''width'', width a)] else []) @
                       (if truthy (height a) then [(''height'', height a)] else []))))
                []) k =
           (if k = ''src''
            then (if src a = Null \<or> src a = Undefined then Null else Str (to_string (src a)))
            else if k = ''alt''
            then (if alt a = Null \<or> alt a = Undefined then Null else Str (to_string (alt a)))
            else if k = ''title''
            then (if title a = Null \<or> title a = Undefined then Null else Str (to_string (title a)))
            else if k = ''width'' \<and> truthy (width a) then Str (to_string (width a))
            else if k = ''height'' \<and> truthy (height a) then Str (to_string (height a))
            else getAttribute (DomElement ''img'' (set_attributes (HTMLAttributes options)) []) k))"
  proof (intro impI allI)
    fix k
    assume d: "distinct (map fst (HTMLAttributes options))"
    show "getAttribute
             (DomElement ''img''
                (set_attributes
                   (mergeAttributes (HTMLAttributes options)
                      ([(''src'', src a), (''alt'', alt a), (''title'', title a)] @
                       (if truthy (width a) then [(''width'', width a)] else []) @
                       (if truthy (height a) then [(''height'', height a)] else []))))
                []) k =
           (if k = ''src''
            then (if src a = Null \<or> src a = Undefined then Null else Str (to_string (src a)))
            else if k = ''alt''
            then (if alt a = Null \<or> alt a = Undefined then Null else Str (to_string (alt a)))
            else if k = ''title''
            then (if title a = Null \<or> title a = Undefined then Null else Str (to_string (title a)))
            else if k = ''width'' \<and> truthy (width a) then Str (to_string (width a))
            else if k = ''height'' \<and> truthy (height a) then Str (to_string (height a))
            else getAttribute (DomElement ''img'' (set_attributes (HTMLAttributes options)) []) k)"
      unfolding getAttribute.simps img_attribute_lookup[OF d] by simp
  qed
  ultimately show ?thesis
    using serialize_options[of options a] serialize_addOptions[of a] serialize_wrapper[of options a]
    by blast
qed

theorem serialize_anchor_iff_href_truthy_witness:
  "distinct (map fst (HTMLAttributes
      \<lparr> inline = True, allowBase64 = False,
        HTMLAttributes = [(''class'', Str ''rounded''), (''width'', Str ''100'')] \<rparr>)) \<and>
   serialize
       \<lparr> inline = True, allowBase64 = False,
         HTMLAttributes = [(''class'', Str ''rounded''), (''width'', Str ''100'')] \<rparr>
       \<lparr> src = Str ''/u/a.png'', alt = Str ''a'', title = Null, width = Null,
         height = Num ''40'', href = Str ''https://example.com'' \<rparr> =
     DomElement ''a'' [(''href'', ''https://example.com'')]
       [DomElement ''img''
          [(''class'', ''rounded''), (''width'', ''100''), (''src'', ''/u/a.png''), (''alt'', ''a''),
           (''height'', ''40'')] []] \<and>
   width \<lparr> src = Str ''/u/a.png'', alt = Str ''a'', title = Null, width = Null,
           height = Num ''40'', href = Str ''https://example.com'' \<rparr> = Null \<and>
   ''width'' \<notin> set (attribute_names (serialize addOptions
       \<lparr> src = Str ''/u/a.png'', alt = Str ''a'', title = Null, width = Null,
         height = Num ''40'', href = Str ''https://example.com'' \<rparr>)) \<and>
   serialize addOptions
       \<lparr> src = Str ''/u/a.png'', alt = Str ''a'', title = Null, width = Null,
         height = Num ''40'', href = Str ''https://example.com'' \<rparr> =
     DomElement ''a'' [(''href'', ''https://example.com'')]
       [DomElement ''img'' [(''src'', ''/u/a.png''), (''alt'', ''a''), (''height'', ''40'')] []] \<and>
   serialize addOptions
       \<lparr> src = Str ''/u/a.png'', alt = Null, title = Null, width = Null,
         height = Null, href = Null \<rparr> =
     DomElement ''img'' [(''src'', ''/u/a.png'')] [] \<and>
   serialize addOptions
       \<lparr> src = Null, alt = Null, title = Str ''t'', width = Null,
         height = Null, href = Null \<rparr> =
     DomElement ''img'' [(''title'', ''t'')] []"
  using serialize_anchor_iff_href_truthy
      [of "\<lparr> inline = True, allowBase64 = False,
         HTMLAttributes = [(''class'', Str ''rounded''), (''width'', Str ''100'')] \<rparr>"
          "\<lparr> src = Str ''/u/a.png'', alt = Str ''a'', title = Null, width = Null,
         height = Num ''40'', href = Str ''https://example.com'' \<rparr>"]
    serialize_anchor_iff_href_truthy
      [of addOptions "\<lparr> src = Null, alt = Null, title = Str ''t'', width = Null,
         height = Null, href = Null \<rparr>"]
    serialize_anchor_iff_href_truthy
      [of addOptions "\<lparr> src = Str ''/u/a.png'', alt = Null, title = Null, width = Null,
         height = Null, href = Null \<rparr>"]
  by (simp add: mergeAttributes_def set_attributes_def addOptions_def)

text \<open>
  The claim as stated fails for an \<^verbatim>\<open>href\<close> that is the empty string: it is not
  \<^verbatim>\<open>null\<close>, and the node serializes to the bare \<^verbatim>\<open>img\<close>.
\<close>

theorem serialize_empty_href_counterexample:
  "href \<lparr> src = Str ''/u/a.png'', alt = Null, title = Null, width = Null,
          height = Null, href = Str '''' \<rparr> \<noteq> Null \<and>
   serialize addOptions
       \<lparr> src = Str ''/u/a.png'', alt = Null, title = Null, width = Null,
         height = Null, href = Str '''' \<rparr> =
     DomElement ''img'' [(''src'', ''/u/a.png'')] []"
  by (simp add: serialize_addOptions)





























section \<open>Properties of the input rule\<close>













section \<open>Properties of the attachment resolver\<close>

lemma scan_Nil:
  "nodesBetween image_callback [] from_pos to_pos ns pos st = st"
  by simp

lemma scan_TextNode:
  "nodesBetween image_callback (TextNode t # rest) from_pos to_pos ns pos st =
     (if pos < to_pos then nodesBetween image_callback rest from_pos to_pos ns (pos + length t) st
      else st)"
  by (simp add: image_callback_def content_size_def Let_def)

lemma scan_LeafNode:
  "nodesBetween image_callback (LeafNode nm # rest) from_pos to_pos ns pos st =
     (if pos < to_pos then nodesBetween image_callback rest from_pos to_pos ns (pos + 1) st
      else st)"
  by (simp add: image_callback_def content_size_def Let_def)

lemma scan_ImageNode:
  "nodesBetween image_callback (ImageNode a # rest) from_pos to_pos ns pos st =
     (if pos < to_pos
      then nodesBetween image_callback rest from_pos to_pos ns (pos + 1)
             (if from_pos < pos + 1 then Some (a, ns + pos) else st)
      else st)"
  by (simp add: image_callback_def content_size_def Let_def)

lemma scan_Branch:
  "nodesBetween image_callback (Branch nm cs # rest) from_pos to_pos ns pos st =
     (if pos < to_pos
      then nodesBetween image_callback rest from_pos to_pos ns (pos + 2 + content_size cs)
             (if from_pos < pos + 2 + content_size cs \<and> content_size cs \<noteq> 0
              then nodesBetween image_callback cs (from_pos - (pos + 1))
                     (min (content_size cs) (to_pos - (pos + 1))) (ns + (pos + 1)) 0 st
              else st)
      else st)"
  by (simp add: image_callback_def content_size_def Let_def add.commute add.left_commute)

lemmas scan_simps = scan_Nil scan_TextNode scan_LeafNode scan_ImageNode scan_Branch

lemma images_in_bounds:
  "(q, a) \<in> set (images_in cs p) \<Longrightarrow> p \<le> q \<and> q < p + content_size cs"
proof (induction cs p rule: images_in.induct)
  case (1 p)
  then show ?case by simp
next
  case (2 t rest p)
  then show ?case by (fastforce simp: content_size_def)
next
  case (3 a' rest p)
  then show ?case by (fastforce simp: content_size_def)
next
  case (4 nm rest p)
  then show ?case by (fastforce simp: content_size_def)
next
  case (5 nm cs rest p)
  then show ?case by (fastforce simp: content_size_def)
qed

declare nodesBetween.simps [simp del]

lemma scan_keeps:
  fixes p :: nat
  shows "st \<noteq> None \<Longrightarrow> nodesBetween image_callback cs from_pos to_pos ns pos st \<noteq> None"
proof (induction cs p arbitrary: from_pos to_pos ns pos st rule: images_in.induct)
  case (1 p)
  then show ?case by (simp add: scan_simps)
next
  case (2 t rest p)
  then show ?case by (simp add: scan_simps)
next
  case (3 a rest p)
  then show ?case by (simp add: scan_simps)
next
  case (4 nm rest p)
  then show ?case by (simp add: scan_simps)
next
  case (5 nm cs rest p)
  then show ?case by (simp add: scan_simps)
qed

lemma scan_complete:
  fixes p :: nat
  shows "(q, a) \<in> set (images_in cs (ns + pos)) \<Longrightarrow> from_pos + ns < q + 1 \<Longrightarrow> q < to_pos + ns \<Longrightarrow>
         nodesBetween image_callback cs from_pos to_pos ns pos st \<noteq> None"
proof (induction cs p arbitrary: from_pos to_pos ns pos st rule: images_in.induct)
  case (1 p)
  then show ?case by simp
next
  case (2 t rest p)
  from "2.prems"(1) have m: "(q, a) \<in> set (images_in rest (ns + (pos + length t)))"
    by (simp add: add.assoc)
  from images_in_bounds[OF m] "2.prems"(3) have "pos < to_pos" by simp
  with "2.IH"[OF m "2.prems"(2,3)] show ?case by (simp add: scan_simps)
next
  case (3 a' rest p)
  from "3.prems"(1) consider (here) "q = ns + pos" "a = a'"
    | (later) "(q, a) \<in> set (images_in rest (ns + (pos + 1)))"
    by (auto simp: add.assoc)
  then show ?case
  proof cases
    case here
    with "3.prems"(2,3) have "pos < to_pos" "from_pos < pos + 1" by simp_all
    then show ?thesis by (simp add: scan_simps scan_keeps)
  next
    case later
    from images_in_bounds[OF later] "3.prems"(3) have "pos < to_pos" by simp
    with "3.IH"[OF later "3.prems"(2,3)] show ?thesis by (simp add: scan_simps)
  qed
next
  case (4 nm rest p)
  from "4.prems"(1) have m: "(q, a) \<in> set (images_in rest (ns + (pos + 1)))"
    by (simp add: add.assoc)
  from images_in_bounds[OF m] "4.prems"(3) have "pos < to_pos" by simp
  with "4.IH"[OF m "4.prems"(2,3)] show ?case by (simp add: scan_simps)
next
  case (5 nm cs rest p)
  from "5.prems"(1) consider (inside) "(q, a) \<in> set (images_in cs ((ns + (pos + 1)) + 0))"
    | (later) "(q, a) \<in> set (images_in rest (ns + (pos + 2 + content_size cs)))"
    by (auto simp: add.assoc content_size_def)
  then show ?case
  proof cases
    case inside
    from images_in_bounds[OF inside] have b: "ns + pos + 1 \<le> q" "q < ns + pos + 1 + content_size cs"
      by simp_all
    with "5.prems"(2,3) have g: "pos < to_pos" "from_pos < pos + 2 + content_size cs"
      "content_size cs \<noteq> 0" by simp_all
    have "from_pos - (pos + 1) + (ns + (pos + 1)) < q + 1"
      using b "5.prems"(2) by simp
    moreover have "q < min (content_size cs) (to_pos - (pos + 1)) + (ns + (pos + 1))"
      using b "5.prems"(3) by simp
    ultimately have "nodesBetween image_callback cs (from_pos - (pos + 1))
        (min (content_size cs) (to_pos - (pos + 1))) (ns + (pos + 1)) 0 st \<noteq> None"
      using "5.IH"(1)[OF inside] by blast
    then show ?thesis using g by (simp add: scan_simps scan_keeps)
  next
    case later
    from images_in_bounds[OF later] "5.prems"(3) have "pos < to_pos" by simp
    with "5.IH"(2)[OF later "5.prems"(2,3)] show ?thesis by (simp add: scan_simps)
  qed
qed

lemma scan_sound:
  fixes p :: nat
  shows "nodesBetween image_callback cs from_pos to_pos ns pos st = Some (a, q) \<Longrightarrow>
         st = Some (a, q) \<or>
         ((q, a) \<in> set (images_in cs (ns + pos)) \<and> from_pos + ns < q + 1 \<and> q < to_pos + ns)"
proof (induction cs p arbitrary: from_pos to_pos ns pos st rule: images_in.induct)
  case (1 p)
  then show ?case by (simp add: scan_simps)
next
  case (2 t rest p)
  show ?case
  proof (cases "pos < to_pos")
    case False
    with "2.prems" show ?thesis by (simp add: scan_simps)
  next
    case True
    with "2.prems" have "nodesBetween image_callback rest from_pos to_pos ns (pos + length t) st = Some (a, q)"
      by (simp add: scan_simps)
    from "2.IH"[OF this] show ?thesis by (auto simp: add.assoc)
  qed
next
  case (3 a' rest p)
  show ?case
  proof (cases "pos < to_pos")
    case False
    with "3.prems" show ?thesis by (simp add: scan_simps)
  next
    case True
    with "3.prems" have "nodesBetween image_callback rest from_pos to_pos ns (pos + 1)
        (if from_pos < pos + 1 then Some (a', ns + pos) else st) = Some (a, q)"
      by (simp add: scan_simps)
    from "3.IH"[OF this] True show ?thesis by (auto simp: add.assoc split: if_splits)
  qed
next
  case (4 nm rest p)
  show ?case
  proof (cases "pos < to_pos")
    case False
    with "4.prems" show ?thesis by (simp add: scan_simps)
  next
    case True
    with "4.prems" have "nodesBetween image_callback rest from_pos to_pos ns (pos + 1) st = Some (a, q)"
      by (simp add: scan_simps)
    from "4.IH"[OF this] show ?thesis by (auto simp: add.assoc)
  qed
next
  case (5 nm cs rest p)
  show ?case
  proof (cases "pos < to_pos")
    case False
    with "5.prems" show ?thesis by (simp add: scan_simps)
  next
    case True
    define st' where "st' = (if from_pos < pos + 2 + content_size cs \<and> content_size cs \<noteq> 0
              then nodesBetween image_callback cs (from_pos - (pos + 1))
                     (min (content_size cs) (to_pos - (pos + 1))) (ns + (pos + 1)) 0 st
              else st)"
    from True "5.prems" have
      "nodesBetween image_callback rest from_pos to_pos ns (pos + 2 + content_size cs) st' = Some (a, q)"
      by (simp add: scan_simps st'_def)
    from "5.IH"(2)[OF this] consider (inner) "st' = Some (a, q)"
      | (later) "(q, a) \<in> set (images_in rest (ns + (pos + 2 + content_size cs)))"
          "from_pos + ns < q + 1" "q < to_pos + ns"
      by blast
    then show ?thesis
    proof cases
      case later
      then show ?thesis by (auto simp: add.assoc content_size_def)
    next
      case inner
      show ?thesis
      proof (cases "from_pos < pos + 2 + content_size cs \<and> content_size cs \<noteq> 0")
        case False
        with inner have "st = Some (a, q)" unfolding st'_def by (auto split: if_splits)
        then show ?thesis by simp
      next
        case g: True
        with inner have "nodesBetween image_callback cs (from_pos - (pos + 1))
                     (min (content_size cs) (to_pos - (pos + 1))) (ns + (pos + 1)) 0 st = Some (a, q)"
          by (simp add: st'_def)
        from "5.IH"(1)[OF this] consider (old) "st = Some (a, q)"
          | (found) "(q, a) \<in> set (images_in cs (ns + (pos + 1) + 0))"
              "from_pos - (pos + 1) + (ns + (pos + 1)) < q + 1"
              "q < min (content_size cs) (to_pos - (pos + 1)) + (ns + (pos + 1))"
          by blast
        then show ?thesis
        proof cases
          case old
          then show ?thesis by simp
        next
          case found
          from found(2) have "from_pos + ns < q + 1" by simp
          moreover from found(3) True have "q < to_pos + ns" by simp
          moreover from found(1) have "(q, a) \<in> set (images_in (Branch nm cs # rest) (ns + pos))"
            by (simp add: add.assoc)
          ultimately show ?thesis by blast
        qed
      qed
    qed
  qed
qed

lemma find_image_complete:
  assumes "image_in_range doc_content from_pos to_pos p a"
  shows "find_image doc_content from_pos to_pos \<noteq> None"
  using assms scan_complete[of p a doc_content 0 0 from_pos to_pos None]
  by (simp add: find_image_def image_in_range_def)

lemma find_image_sound:
  assumes "find_image doc_content from_pos to_pos = Some (a, p)"
  shows "image_in_range doc_content from_pos to_pos p a"
  using scan_sound[of doc_content from_pos to_pos 0 0 None a p] assms
  by (simp add: find_image_def image_in_range_def)

lemma find_image_None_iff:
  "find_image doc_content from_pos to_pos = None \<longleftrightarrow>
   \<not> (\<exists>p a. image_in_range doc_content from_pos to_pos p a)"
proof
  assume n: "find_image doc_content from_pos to_pos = None"
  show "\<not> (\<exists>p a. image_in_range doc_content from_pos to_pos p a)"
    using find_image_complete n by blast
next
  assume "\<not> (\<exists>p a. image_in_range doc_content from_pos to_pos p a)"
  then show "find_image doc_content from_pos to_pos = None"
    using find_image_sound[of doc_content from_pos to_pos]
    by (cases "find_image doc_content from_pos to_pos") auto
qed

text \<open>
  Claim C5. When some \<^verbatim>\<open>customImage\<close> node lies in the range of the selection, with or
  without text around it, the scan finds such a node: \<^verbatim>\<open>setLink\<close> opens the dialog
  with that node's \<^verbatim>\<open>href\<close> (the empty string when it has none), and
  \<^verbatim>\<open>handleSaveLink\<close> either reports an invalid URL and does nothing or rewrites that
  node with the new \<^verbatim>\<open>href\<close>; it never touches a link mark. When no such node lies in
  the range, the dialog opens with the link mark's destination and no node is rewritten.
\<close>

theorem image_in_selection_resolves_to_node:
  "((\<exists>p a. image_in_range doc_content from_pos to_pos p a) \<longrightarrow>
      (\<exists>p a. image_in_range doc_content from_pos to_pos p a \<and>
         find_image doc_content from_pos to_pos = Some (a, p) \<and>
         setLink doc_content from_pos to_pos link_href dialog =
           dialog\<lparr> linkUrl := (if truthy (href a) then href a else Str ''''),
                   isLinkDialogOpen := True \<rparr> \<and>
         handleSaveLink doc_content from_pos to_pos dialog =
           (if truthy (linkUrl dialog) \<and> \<not> regex_test linkRegex (to_string (linkUrl dialog))
            then (dialog\<lparr> linkError := Some ''Please enter a valid URL (e.g., https://example.com)'' \<rparr>,
                  None)
            else (dialog\<lparr> isLinkDialogOpen := False, linkUrl := Str '''', linkError := None \<rparr>,
                  Some (SetNodeMarkup p
                         (a\<lparr> href := (if truthy (linkUrl dialog) then linkUrl dialog else Null) \<rparr>)))))) \<and>
   (\<not> (\<exists>p a. image_in_range doc_content from_pos to_pos p a) \<longrightarrow>
      find_image doc_content from_pos to_pos = None \<and>
      setLink doc_content from_pos to_pos link_href dialog =
        dialog\<lparr> linkUrl := (if truthy link_href then link_href else Str ''''),
                isLinkDialogOpen := True \<rparr> \<and>
      (\<forall>p attrs. snd (handleSaveLink doc_content from_pos to_pos dialog) \<noteq>
                    Some (SetNodeMarkup p attrs)))"
proof (intro conjI impI)
  assume "\<exists>p a. image_in_range doc_content from_pos to_pos p a"
  then have "find_image doc_content from_pos to_pos \<noteq> None"
    using find_image_complete by blast
  then obtain a p where f: "find_image doc_content from_pos to_pos = Some (a, p)" by auto
  have r: "image_in_range doc_content from_pos to_pos p a" by (rule find_image_sound[OF f])
  have s: "setLink doc_content from_pos to_pos link_href dialog =
           dialog\<lparr> linkUrl := (if truthy (href a) then href a else Str ''''),
                   isLinkDialogOpen := True \<rparr>"
    by (simp add: setLink_def f Let_def)
  have h: "handleSaveLink doc_content from_pos to_pos dialog =
           (if truthy (linkUrl dialog) \<and> \<not> regex_test linkRegex (to_string (linkUrl dialog))
            then (dialog\<lparr> linkError := Some ''Please enter a valid URL (e.g., https://example.com)'' \<rparr>,
                  None)
            else (dialog\<lparr> isLinkDialogOpen := False, linkUrl := Str '''', linkError := None \<rparr>,
                  Some (SetNodeMarkup p
                         (a\<lparr> href := (if truthy (linkUrl dialog) then linkUrl dialog else Null) \<rparr>))))"
    by (simp add: handleSaveLink_def f Let_def)
  from r f s h show "\<exists>p a. image_in_range doc_content from_pos to_pos p a \<and>
         find_image doc_content from_pos to_pos = Some (a, p) \<and>
         setLink doc_content from_pos to_pos link_href dialog =
           dialog\<lparr> linkUrl := (if truthy (href a) then href a else Str ''''),
                   isLinkDialogOpen := True \<rparr> \<and>
         handleSaveLink doc_content from_pos to_pos dialog =
           (if truthy (linkUrl dialog) \<and> \<not> regex_test linkRegex (to_string (linkUrl dialog))
            then (dialog\<lparr> linkError := Some ''Please enter a valid URL (e.g., https://example.com)'' \<rparr>,
                  None)
            else (dialog\<lparr> isLinkDialogOpen := False, linkUrl := Str '''', linkError := None \<rparr>,
                  Some (SetNodeMarkup p
                         (a\<lparr> href := (if truthy (linkUrl dialog) then linkUrl dialog else Null) \<rparr>))))"
    by blast
next
  assume n: "\<not> (\<exists>p a. image_in_range doc_content from_pos to_pos p a)"
  then show f: "find_image doc_content from_pos to_pos = None"
    using find_image_None_iff by blast
  show "setLink doc_content from_pos to_pos link_href dialog =
        dialog\<lparr> linkUrl := (if truthy link_href then link_href else Str ''''),
                isLinkDialogOpen := True \<rparr>"
    by (simp add: setLink_def f Let_def)
  show "\<forall>p attrs. snd (handleSaveLink doc_content from_pos to_pos dialog) \<noteq>
                    Some (SetNodeMarkup p attrs)"
    by (simp add: handleSaveLink_def f Let_def)
qed

text \<open>
  Claim C6. When \<^verbatim>\<open>handleSaveLink\<close> commits in node mode, the attributes it gives to
  \<^verbatim>\<open>setNodeMarkup\<close> are those of the image found in the selection with only
  \<^verbatim>\<open>href\<close> changed: \<^verbatim>\<open>src\<close>, \<^verbatim>\<open>alt\<close>, \<^verbatim>\<open>title\<close>, \<^verbatim>\<open>width\<close> and
  \<^verbatim>\<open>height\<close> are the node's, and \<^verbatim>\<open>href\<close> is the submitted URL, or \<^verbatim>\<open>null\<close> when
  the URL is the empty string. A URL that is not empty has passed the test.
\<close>

theorem node_commit_changes_only_href:
  assumes "handleSaveLink doc_content from_pos to_pos dialog =
             (dialog', Some (SetNodeMarkup p newAttrs))"
  shows "\<exists>a. find_image doc_content from_pos to_pos = Some (a, p) \<and>
           image_in_range doc_content from_pos to_pos p a \<and>
           src newAttrs = src a \<and> alt newAttrs = alt a \<and> title newAttrs = title a \<and>
           width newAttrs = width a \<and> height newAttrs = height a \<and>
           newAttrs = a\<lparr> href := href newAttrs \<rparr> \<and>
           href newAttrs = (if truthy (linkUrl dialog) then linkUrl dialog else Null) \<and>
           (linkUrl dialog = Str '''' \<longrightarrow> href newAttrs = Null) \<and>
           (truthy (linkUrl dialog) \<longrightarrow> regex_test linkRegex (to_string (linkUrl dialog)))"
proof -
  from assms have v: "\<not> (truthy (linkUrl dialog) \<and> \<not> regex_test linkRegex (to_string (linkUrl dialog)))"
    by (auto simp: handleSaveLink_def split: if_splits)
  with assms obtain a where f: "find_image doc_content from_pos to_pos = Some (a, p)"
    and n: "newAttrs = a\<lparr> href := (if truthy (linkUrl dialog) then linkUrl dialog else Null) \<rparr>"
    by (cases "find_image doc_content from_pos to_pos")
       (auto simp: handleSaveLink_def Let_def split: if_splits)
  have r: "image_in_range doc_content from_pos to_pos p a" by (rule find_image_sound[OF f])
  from n have "src newAttrs = src a" "alt newAttrs = alt a" "title newAttrs = title a"
    "width newAttrs = width a" "height newAttrs = height a"
    "newAttrs = a\<lparr> href := href newAttrs \<rparr>"
    "href newAttrs = (if truthy (linkUrl dialog) then linkUrl dialog else Null)"
    by simp_all
  moreover from this(7) have "linkUrl dialog = Str '''' \<longrightarrow> href newAttrs = Null" by simp
  ultimately show ?thesis using f r v by blast
qed

lemma linkRegex_example: "regex_test linkRegex ''https://example.com''"
  by (simp add: regex_test_def regex_exec_def linkRegex_def lit_def line_terminator_def)

lemma example_find_image:
  "find_image
     [Branch ''paragraph''
        [TextNode ''ab'',
         ImageNode \<lparr> src = Str ''/u/a.png'', alt = Str ''a'', title = Null, width = Num ''300'',
                     height = Null, href = Str ''https://x.y'' \<rparr>,
         TextNode ''cd'']] 2 5 =
   Some (\<lparr> src = Str ''/u/a.png'', alt = Str ''a'', title = Null, width = Num ''300'',
           height = Null, href = Str ''https://x.y'' \<rparr>, 3)"
  by (simp add: find_image_def scan_simps content_size_def)

lemma example_find_text:
  "find_image
     [Branch ''paragraph''
        [TextNode ''ab'',
         ImageNode \<lparr> src = Str ''/u/a.png'', alt = Str ''a'', title = Null, width = Num ''300'',
                     height = Null, href = Str ''https://x.y'' \<rparr>,
         TextNode ''cd'']] 1 3 = None"
  by (simp add: find_image_def scan_simps content_size_def)

theorem image_in_selection_resolves_to_node_witness:
  "image_in_range
     [Branch ''paragraph''
        [TextNode ''ab'',
         ImageNode \<lparr> src = Str ''/u/a.png'', alt = Str ''a'', title = Null, width = Num ''300'',
                     height = Null, href = Str ''https://x.y'' \<rparr>,
         TextNode ''cd'']] 2 5 3
     \<lparr> src = Str ''/u/a.png'', alt = Str ''a'', title = Null, width = Num ''300'',
       height = Null, href = Str ''https://x.y'' \<rparr> \<and>
   setLink
     [Branch ''paragraph''
        [TextNode ''ab'',
         ImageNode \<lparr> src = Str ''/u/a.png'', alt = Str ''a'', title = Null, width = Num ''300'',
                     height = Null, href = Str ''https://x.y'' \<rparr>,
         TextNode ''cd'']] 2 5 (Str ''https://mark.example'')
     \<lparr> isLinkDialogOpen = False, linkUrl = Str '''', linkError = None \<rparr> =
     \<lparr> isLinkDialogOpen = True, linkUrl = Str ''https://x.y'', linkError = None \<rparr> \<and>
   handleSaveLink
     [Branch ''paragraph''
        [TextNode ''ab'',
         ImageNode \<lparr> src = Str ''/u/a.png'', alt = Str ''a'', title = Null, width = Num ''300'',
                     height = Null, href = Str ''https://x.y'' \<rparr>,
         TextNode ''cd'']] 2 5
     \<lparr> isLinkDialogOpen = True, linkUrl = Str ''https://example.com'', linkError = None \<rparr> =
     (\<lparr> isLinkDialogOpen = False, linkUrl = Str '''', linkError = None \<rparr>,
      Some (SetNodeMarkup 3
        \<lparr> src = Str ''/u/a.png'', alt = Str ''a'', title = Null, width = Num ''300'',
          height = Null, href = Str ''https://example.com'' \<rparr>)) \<and>
   \<not> (\<exists>p a. image_in_range
     [Branch ''paragraph''
        [TextNode ''ab'',
         ImageNode \<lparr> src = Str ''/u/a.png'', alt = Str ''a'', title = Null, width = Num ''300'',
                     height = Null, href = Str ''https://x.y'' \<rparr>,
         TextNode ''cd'']] 1 3 p a) \<and>
   setLink
     [Branch ''paragraph''
        [TextNode ''ab'',
         ImageNode \<lparr> src = Str ''/u/a.png'', alt = Str ''a'', title = Null, width = Num ''300'',
                     height = Null, href = Str ''https://x.y'' \<rparr>,
         TextNode ''cd'']] 1 3 (Str ''https://mark.example'')
     \<lparr> isLinkDialogOpen = False, linkUrl = Str '''', linkError = None \<rparr> =
     \<lparr> isLinkDialogOpen = True, linkUrl = Str ''https://mark.example'', linkError = None \<rparr>"
proof -
  let ?img = "\<lparr> src = Str ''/u/a.png'', alt = Str ''a'', title = Null, width = Num ''300'',
                     height = Null, href = Str ''https://x.y'' \<rparr>"
  let ?d = "[Branch ''paragraph'' [TextNode ''ab'', ImageNode ?img, TextNode ''cd'']]"
  have r: "image_in_range ?d 2 5 3 ?img"
    by (simp add: image_in_range_def)
  have n: "\<not> (\<exists>p a. image_in_range ?d 1 3 p a)"
    by (simp add: image_in_range_def)
  from r have e: "\<exists>p a. image_in_range ?d 2 5 p a" by blast
  note t1 = image_in_selection_resolves_to_node
      [of ?d 2 5 "Str ''https://mark.example''"
          "\<lparr> isLinkDialogOpen = False, linkUrl = Str '''', linkError = None \<rparr>"]
  note t2 = image_in_selection_resolves_to_node
      [of ?d 2 5 "Str ''https://mark.example''"
          "\<lparr> isLinkDialogOpen = True, linkUrl = Str ''https://example.com'', linkError = None \<rparr>"]
  note t3 = image_in_selection_resolves_to_node
      [of ?d 1 3 "Str ''https://mark.example''"
          "\<lparr> isLinkDialogOpen = False, linkUrl = Str '''', linkError = None \<rparr>"]
  from t1 e have s1: "setLink ?d 2 5 (Str ''https://mark.example'')
       \<lparr> isLinkDialogOpen = False, linkUrl = Str '''', linkError = None \<rparr> =
     \<lparr> isLinkDialogOpen = True, linkUrl = Str ''https://x.y'', linkError = None \<rparr>"
    by (auto simp: example_find_image)
  from t2 e have s2: "handleSaveLink ?d 2 5
       \<lparr> isLinkDialogOpen = True, linkUrl = Str ''https://example.com'', linkError = None \<rparr> =
     (\<lparr> isLinkDialogOpen = False, linkUrl = Str '''', linkError = None \<rparr>,
      Some (SetNodeMarkup 3
        \<lparr> src = Str ''/u/a.png'', alt = Str ''a'', title = Null, width = Num ''300'',
          height = Null, href = Str ''https://example.com'' \<rparr>))"
    by (auto simp: example_find_image linkRegex_example)
  from t3 n have s3: "setLink ?d 1 3 (Str ''https://mark.example'')
       \<lparr> isLinkDialogOpen = False, linkUrl = Str '''', linkError = None \<rparr> =
     \<lparr> isLinkDialogOpen = True, linkUrl = Str ''https://mark.example'', linkError = None \<rparr>"
    by simp
  from r s1 s2 n s3 show ?thesis by blast
qed

theorem node_commit_changes_only_href_witness:
  "handleSaveLink
     [Branch ''paragraph''
        [TextNode ''ab'',
         ImageNode \<lparr> src = Str ''/u/a.png'', alt = Str ''a'', title = Null, width = Num ''300'',
                     height = Null, href = Str ''https://x.y'' \<rparr>,
         TextNode ''cd'']] 2 5
     \<lparr> isLinkDialogOpen = True, linkUrl = Str ''https://example.com'', linkError = None \<rparr> =
     (\<lparr> isLinkDialogOpen = False, linkUrl = Str '''', linkError = None \<rparr>,
      Some (SetNodeMarkup 3
        \<lparr> src = Str ''/u/a.png'', alt = Str ''a'', title = Null, width = Num ''300'',
          height = Null, href = Str ''https://example.com'' \<rparr>)) \<and>
   handleSaveLink
     [Branch ''paragraph''
        [TextNode ''ab'',
         ImageNode \<lparr> src = Str ''/u/a.png'', alt = Str ''a'', title = Null, width = Num ''300'',
                     height = Null, href = Str ''https://x.y'' \<rparr>,
         TextNode ''cd'']] 2 5
     \<lparr> isLinkDialogOpen = True, linkUrl = Str '''', linkError = None \<rparr> =
     (\<lparr> isLinkDialogOpen = False, linkUrl = Str '''', linkError = None \<rparr>,
      Some (SetNodeMarkup 3
        \<lparr> src = Str ''/u/a.png'', alt = Str ''a'', title = Null, width = Num ''300'',
          height = Null, href = Null \<rparr>))"
proof -
  let ?img = "\<lparr> src = Str ''/u/a.png'', alt = Str ''a'', title = Null, width = Num ''300'',
                     height = Null, href = Str ''https://x.y'' \<rparr>"
  let ?d = "[Branch ''paragraph'' [TextNode ''ab'', ImageNode ?img, TextNode ''cd'']]"
  have e1: "handleSaveLink ?d 2 5
       \<lparr> isLinkDialogOpen = True, linkUrl = Str ''https://example.com'', linkError = None \<rparr> =
     (\<lparr> isLinkDialogOpen = False, linkUrl = Str '''', linkError = None \<rparr>,
      Some (SetNodeMarkup 3 (?img\<lparr> href := Str ''https://example.com'' \<rparr>)))"
    by (simp add: handleSaveLink_def example_find_image linkRegex_example)
  have e2: "handleSaveLink ?d 2 5
       \<lparr> isLinkDialogOpen = True, linkUrl = Str '''', linkError = None \<rparr> =
     (\<lparr> isLinkDialogOpen = False, linkUrl = Str '''', linkError = None \<rparr>,
      Some (SetNodeMarkup 3 (?img\<lparr> href := Null \<rparr>)))"
    by (simp add: handleSaveLink_def example_find_image)
  from node_commit_changes_only_href[OF e1] node_commit_changes_only_href[OF e2] e1 e2
  show ?thesis by simp
qed

end
